theory Spec2Isabelle
  imports Main "HOL-Library.Word"
begin

section \<open>JavaScript values\<close>

text \<open>
  A JavaScript string is a sequence of 16-bit code units, and \<open>.length\<close> counts them.
  \<open>js\<close> injects an ASCII literal of the source.
\<close>

type_synonym jsstring = "16 word list"

definition js :: "string \<Rightarrow> jsstring" where
  "js = map (\<lambda>c. of_nat (of_char c))"

subsection \<open>Numbers\<close>

text \<open>
  A Number is an IEEE 754 double. A literal denotes a finite double of either sign (the two
  zeros included) or an infinity, never NaN. \<open>Finite neg m e\<close> is the double of magnitude
  \<open>m * 2^e\<close>, with \<open>m\<close> odd, or \<open>m = 0\<close> and \<open>e = 0\<close> for a zero; \<open>neg\<close> is the sign bit.
  So \<open>Finite False 5 1\<close> is 10 and \<open>Finite False 1 (- 1)\<close> is 0.5.
\<close>

datatype number = Finite bool int int | Infinity bool

text \<open>The number of bits of a positive integer.\<close>

function bit_length :: "int \<Rightarrow> int" where
  "bit_length n = (if n \<le> 0 then 0 else bit_length (n div 2) + 1)"
  by pat_completeness auto
termination
  by (relation "measure nat") auto

text \<open>Move the factors 2 of a non-zero mantissa into the exponent.\<close>

function norm_bin :: "int \<Rightarrow> int \<Rightarrow> int \<times> int" where
  "norm_bin m e = (if m \<noteq> 0 \<and> m mod 2 = 0 then norm_bin (m div 2) (e + 1) else (m, e))"
  by pat_completeness auto
termination
  by (relation "measure (\<lambda>(m, e). nat \<bar>m\<bar>)") auto

definition make_finite :: "bool \<Rightarrow> int \<Rightarrow> int \<Rightarrow> number" where
  "make_finite neg m e =
     (if m = 0 then Finite neg 0 0 else (let (a, e') = norm_bin m e in Finite neg a e'))"

text \<open>The fraction \<open>num / (den * 2^e)\<close> as a pair of integers.\<close>

definition scale :: "int \<Rightarrow> int \<Rightarrow> int \<Rightarrow> int \<times> int" where
  "scale num den e = (if 0 \<le> e then (num, den * 2 ^ nat e) else (num * 2 ^ nat (- e), den))"

text \<open>
  The Number value of the decimal \<open>M * 10^E\<close> with the sign \<open>neg\<close>, as V8 computes it for a
  literal: the nearest double, the one with the even significand when two are as near, an
  infinity from \<open>2^1024 - 2^970\<close> on. With \<open>num / den\<close> the decimal, \<open>e\<close> is the exponent of
  the last bit of the significand: the quotient by \<open>2^e\<close> has 53 bits, or fewer when \<open>e\<close> is
  the least exponent \<open>-1074\<close>; the quotient is rounded on the remainder.
\<close>

definition number_of_decimal :: "bool \<Rightarrow> int \<Rightarrow> int \<Rightarrow> number" where
  "number_of_decimal neg M E =
     (if M \<le> 0 then Finite neg 0 0
      else
        let num = (if 0 \<le> E then M * 10 ^ nat E else M);
            den = (if 0 \<le> E then 1 else 10 ^ nat (- E));
            e0 = max (bit_length num - bit_length den - 53) (- 1074);
            (n0, d0) = scale num den e0;
            e = (if n0 div d0 \<ge> 2 ^ 53 then e0 + 1 else e0);
            (n, d) = scale num den e;
            q = n div d;
            r = n mod d;
            q' = (if 2 * r > d \<or> (2 * r = d \<and> odd q) then q + 1 else q)
        in if q' * 2 ^ nat (e + 1074) \<ge> 2 ^ 2098 then Infinity neg else make_finite neg q' e)"

text \<open>The Number of an integer literal of the source.\<close>

definition number_of_int :: "int \<Rightarrow> number" where
  "number_of_int i = number_of_decimal (i < 0) \<bar>i\<bar> 0"

subsection \<open>JSON values\<close>

text \<open>
  The values \<open>JSON.parse\<close> can produce. An object is the list of its own properties in
  enumeration order. \<open>undefined\<close> is not a JSON value: a variable or property that may be
  \<open>undefined\<close> has type \<open>json option\<close>, with \<open>None\<close> for \<open>undefined\<close>.
\<close>

datatype json =
    JNull
  | JBool bool
  | JNum number
  | JStr jsstring
  | JArr "json list"
  | JObj "(jsstring \<times> json) list"

text \<open>A thrown exception: its \<open>name\<close> and its \<open>message\<close>.\<close>

datatype thrown = Thrown (thrown_name: jsstring) (thrown_message: jsstring)

definition TypeError_primitive :: thrown where
  "TypeError_primitive = Thrown (js ''TypeError'') (js ''Cannot convert object to primitive value'')"

subsection \<open>Truthiness\<close>

text \<open>
  \<open>!v\<close> is true for \<open>undefined\<close>, \<open>null\<close>, \<open>false\<close>, the two zeros and the empty string only.
\<close>

definition is_zero :: "number \<Rightarrow> bool" where
  "is_zero x = (case x of Finite neg m e \<Rightarrow> m = 0 | Infinity neg \<Rightarrow> False)"

fun truthy :: "json option \<Rightarrow> bool" where
  "truthy None = False"
| "truthy (Some JNull) = False"
| "truthy (Some (JBool b)) = b"
| "truthy (Some (JNum x)) = (\<not> is_zero x)"
| "truthy (Some (JStr s)) = (s \<noteq> [])"
| "truthy (Some (JArr xs)) = True"
| "truthy (Some (JObj kvs)) = True"

subsection \<open>Number to string\<close>

text \<open>The decimal digits of a natural number.\<close>

function digits :: "int \<Rightarrow> jsstring" where
  "digits n =
     (if n < 10 then [word_of_int (48 + n)]
      else digits (n div 10) @ [word_of_int (48 + n mod 10)])"
  by pat_completeness auto
termination
  by (relation "measure nat") auto

text \<open>Strip the trailing zeros of a non-zero mantissa into the exponent.\<close>

function norm_dec :: "int \<Rightarrow> int \<Rightarrow> int \<times> int" where
  "norm_dec m e = (if m \<noteq> 0 \<and> m mod 10 = 0 then norm_dec (m div 10) (e + 1) else (m, e))"
  by pat_completeness auto
termination
  by (relation "measure (\<lambda>(m, e). nat \<bar>m\<bar>)") auto

text \<open>
  The exact decimal \<open>D * 10^E\<close> of the double \<open>m * 2^e\<close>: for a negative exponent,
  \<open>2^e = 5^(- e) * 10^e\<close>.
\<close>

definition exact_decimal :: "int \<Rightarrow> int \<Rightarrow> int \<times> int" where
  "exact_decimal m e =
     (if 0 \<le> e then norm_dec (m * 2 ^ nat e) 0 else norm_dec (m * 5 ^ nat (- e)) e)"

text \<open>
  The digits that \<open>Number::toString\<close> prints for the positive double \<open>x\<close>: the decimal
  \<open>s * 10^E'\<close> with the fewest digits whose Number value is \<open>x\<close> and, among those, the one
  nearest to \<open>x\<close> (the even one when two are as near). With \<open>D * 10^E\<close> the exact decimal of
  \<open>x\<close>, the candidates with \<open>dropped\<close> fewer digits than \<open>D\<close> are \<open>D\<close> without its last
  \<open>dropped\<close> digits and the successor of that; the search starts with one digit and ends
  at the latest with \<open>D\<close> itself.
\<close>

function shortest_decimal :: "number \<Rightarrow> int \<Rightarrow> int \<Rightarrow> nat \<Rightarrow> int \<times> int" where
  "shortest_decimal x D E dropped =
     (if dropped = 0 then (D, E)
      else
        let lo = D div 10 ^ dropped;
            r = D mod 10 ^ dropped;
            E' = E + int dropped;
            lo_ok = (number_of_decimal False lo E' = x);
            hi_ok = (number_of_decimal False (lo + 1) E' = x);
            hi_nearer = (2 * r > 10 ^ dropped \<or> (2 * r = 10 ^ dropped \<and> odd lo))
        in if lo_ok \<and> \<not> (hi_ok \<and> hi_nearer) then (lo, E')
           else if hi_ok then (lo + 1, E')
           else shortest_decimal x D E (dropped - 1))"
  by pat_completeness auto
termination
  by (relation "measure (\<lambda>(x, D, E, dropped). dropped)") auto

text \<open>
  The notation of \<open>Number::toString\<close> of ECMA-262 for radix 10, on the \<open>k\<close> significant
  digits \<open>ds\<close> and the position \<open>n\<close> of the decimal point.
\<close>

definition decimal_to_string :: "int \<Rightarrow> int \<Rightarrow> jsstring" where
  "decimal_to_string s e =
     (let (a, e') = norm_dec s e;
          ds = digits a;
          k = int (length ds);
          n = k + e'
      in if k \<le> n \<and> n \<le> 21 then ds @ replicate (nat (n - k)) (48::16 word)
         else if 0 < n \<and> n \<le> 21 then take (nat n) ds @ js ''.'' @ drop (nat n) ds
         else if - 6 < n \<and> n \<le> 0 then js ''0.'' @ replicate (nat (- n)) (48::16 word) @ ds
         else
           (if k = 1 then ds else take 1 ds @ js ''.'' @ drop 1 ds)
           @ js ''e'' @ (if n - 1 < 0 then js ''-'' else js ''+'') @ digits \<bar>n - 1\<bar>)"

text \<open>\<open>Number::toString\<close>: both zeros print as \<open>0\<close>.\<close>

definition number_to_string :: "number \<Rightarrow> jsstring" where
  "number_to_string x =
     (case x of
        Infinity neg \<Rightarrow> (if neg then js ''-Infinity'' else js ''Infinity'')
      | Finite neg m e \<Rightarrow>
          if m = 0 then js ''0''
          else
            let (D, E) = exact_decimal m e;
                (s, n) = shortest_decimal (Finite False m e) D E (length (digits D) - 1)
            in (if neg then js ''-'' else []) @ decimal_to_string s n)"

subsection \<open>ToString\<close>

fun js_join :: "jsstring \<Rightarrow> jsstring list \<Rightarrow> jsstring" where
  "js_join sep [] = []"
| "js_join sep [x] = x"
| "js_join sep (x # y # ys) = x @ sep @ js_join sep (y # ys)"

text \<open>
  \<open>String(v)\<close>, \<open>`${v}`\<close> and the element conversion of \<open>Array.prototype.join\<close>. An array
  prints its elements joined by commas, \<open>null\<close> elements as the empty string. An object prints
  as \<open>[object Object]\<close> through the inherited \<open>toString\<close>; when it has an own property
  \<open>toString\<close> (never callable in parsed JSON) the conversion throws a TypeError, which is
  \<open>None\<close> here.
\<close>

fun js_ToString :: "json \<Rightarrow> jsstring option" where
  "js_ToString JNull = Some (js ''null'')"
| "js_ToString (JBool b) = Some (if b then js ''true'' else js ''false'')"
| "js_ToString (JNum x) = Some (number_to_string x)"
| "js_ToString (JStr s) = Some s"
| "js_ToString (JArr xs) =
     map_option (js_join (js '','')) (those (map (\<lambda>x. if x = JNull then Some [] else js_ToString x) xs))"
| "js_ToString (JObj kvs) =
     (if js ''toString'' \<in> fst ` set kvs then None else Some (js ''[object Object]''))"

definition array_join :: "json list \<Rightarrow> jsstring \<Rightarrow> jsstring option" where
  "array_join xs sep =
     map_option (js_join sep) (those (map (\<lambda>x. if x = JNull then Some [] else js_ToString x) xs))"

text \<open>Property read \<open>v.key\<close> on a value that is not \<open>null\<close>, for a key no prototype defines.\<close>

fun get_prop :: "json \<Rightarrow> jsstring \<Rightarrow> json option" where
  "get_prop (JObj kvs) key = map_of kvs key"
| "get_prop v key = None"

section \<open>clampString\<close>

definition clampString :: "json option \<Rightarrow> nat \<Rightarrow> thrown + jsstring" where
  "clampString s mx =
     (if \<not> truthy s then Inr []
      else case s of
        Some (JStr t) \<Rightarrow> Inr (if length t > mx then take mx t else t)
      | Some v \<Rightarrow> (case js_ToString v of None \<Rightarrow> Inl TypeError_primitive | Some r \<Rightarrow> Inr r)
      | None \<Rightarrow> Inr [])"


section \<open>JSON.stringify\<close>

abbreviation QUOTE :: "16 word" where "QUOTE \<equiv> 0x22"
abbreviation BACKSLASH :: "16 word" where "BACKSLASH \<equiv> 0x5C"
abbreviation LBRACE :: "16 word" where "LBRACE \<equiv> 0x7B"
abbreviation RBRACE :: "16 word" where "RBRACE \<equiv> 0x7D"
abbreviation LBRACKET :: "16 word" where "LBRACKET \<equiv> 0x5B"
abbreviation RBRACKET :: "16 word" where "RBRACKET \<equiv> 0x5D"
abbreviation COMMA :: "16 word" where "COMMA \<equiv> 0x2C"
abbreviation COLON :: "16 word" where "COLON \<equiv> 0x3A"

definition hex_digit :: "nat \<Rightarrow> 16 word" where
  "hex_digit d = (if d < 10 then of_nat (48 + d) else of_nat (87 + d))"

definition unicode_escape :: "16 word \<Rightarrow> jsstring" where
  "unicode_escape c =
     (let n = unat c in
      [BACKSLASH, 0x75, hex_digit (n div 4096), hex_digit (n div 256 mod 16),
       hex_digit (n div 16 mod 16), hex_digit (n mod 16)])"

definition is_high_surrogate :: "16 word \<Rightarrow> bool" where
  "is_high_surrogate c = (0xD800 \<le> c \<and> c \<le> 0xDBFF)"

definition is_low_surrogate :: "16 word \<Rightarrow> bool" where
  "is_low_surrogate c = (0xDC00 \<le> c \<and> c \<le> 0xDFFF)"

text \<open>One code unit that is not a surrogate, as \<open>QuoteJSONString\<close> writes it.\<close>

definition escape_unit :: "16 word \<Rightarrow> jsstring" where
  "escape_unit c =
     (if c = 0x08 then [BACKSLASH, 0x62]
      else if c = 0x09 then [BACKSLASH, 0x74]
      else if c = 0x0A then [BACKSLASH, 0x6E]
      else if c = 0x0C then [BACKSLASH, 0x66]
      else if c = 0x0D then [BACKSLASH, 0x72]
      else if c = QUOTE then [BACKSLASH, QUOTE]
      else if c = BACKSLASH then [BACKSLASH, BACKSLASH]
      else if c < 0x20 then unicode_escape c
      else [c])"

text \<open>
  The string is read by code points: a high surrogate followed by a low one is kept, a
  surrogate on its own is written as a \<open>\u\<close> escape (well-formed \<open>JSON.stringify\<close>).
\<close>

fun quote_units :: "jsstring \<Rightarrow> jsstring" where
  "quote_units [] = []"
| "quote_units [c] =
     (if is_high_surrogate c \<or> is_low_surrogate c then unicode_escape c else escape_unit c)"
| "quote_units (c # d # cs) =
     (if is_high_surrogate c then
        (if is_low_surrogate d then c # d # quote_units cs
         else unicode_escape c @ quote_units (d # cs))
      else if is_low_surrogate c then unicode_escape c @ quote_units (d # cs)
      else escape_unit c @ quote_units (d # cs))"

definition quote_json :: "jsstring \<Rightarrow> jsstring" where
  "quote_json s = [QUOTE] @ quote_units s @ [QUOTE]"

text \<open>A number that is not finite is written as \<open>null\<close>.\<close>

fun JSON_stringify :: "json \<Rightarrow> jsstring" where
  "JSON_stringify JNull = js ''null''"
| "JSON_stringify (JBool b) = (if b then js ''true'' else js ''false'')"
| "JSON_stringify (JNum x) =
     (case x of Infinity neg \<Rightarrow> js ''null'' | Finite neg m e \<Rightarrow> number_to_string x)"
| "JSON_stringify (JStr s) = quote_json s"
| "JSON_stringify (JArr xs) = [LBRACKET] @ js_join [COMMA] (map JSON_stringify xs) @ [RBRACKET]"
| "JSON_stringify (JObj kvs) =
     [LBRACE] @ js_join [COMMA] (map (\<lambda>(k, v). quote_json k @ [COLON] @ JSON_stringify v) kvs)
     @ [RBRACE]"

section \<open>JSON.parse\<close>

definition is_ws :: "16 word \<Rightarrow> bool" where
  "is_ws c = (c = 0x20 \<or> c = 0x09 \<or> c = 0x0A \<or> c = 0x0D)"

definition skip_ws :: "jsstring \<Rightarrow> jsstring" where
  "skip_ws = dropWhile is_ws"

definition is_digit :: "16 word \<Rightarrow> bool" where
  "is_digit c = (0x30 \<le> c \<and> c \<le> 0x39)"

definition hex_value :: "16 word \<Rightarrow> nat option" where
  "hex_value c =
     (if 0x30 \<le> c \<and> c \<le> 0x39 then Some (unat c - 48)
      else if 0x41 \<le> c \<and> c \<le> 0x46 then Some (unat c - 55)
      else if 0x61 \<le> c \<and> c \<le> 0x66 then Some (unat c - 87)
      else None)"

text \<open>The character a two-character escape stands for.\<close>

definition simple_escape :: "16 word \<Rightarrow> 16 word option" where
  "simple_escape e =
     (if e = QUOTE then Some QUOTE
      else if e = BACKSLASH then Some BACKSLASH
      else if e = 0x2F then Some 0x2F
      else if e = 0x62 then Some 0x08
      else if e = 0x66 then Some 0x0C
      else if e = 0x6E then Some 0x0A
      else if e = 0x72 then Some 0x0D
      else if e = 0x74 then Some 0x09
      else None)"

text \<open>
  The characters of a string literal after its opening quote: the decoded string and the
  input after the closing quote.
\<close>

definition hex4 :: "16 word \<Rightarrow> 16 word \<Rightarrow> 16 word \<Rightarrow> 16 word \<Rightarrow> 16 word option" where
  "hex4 h1 h2 h3 h4 =
     (case hex_value h1 of None \<Rightarrow> None | Some a \<Rightarrow>
     (case hex_value h2 of None \<Rightarrow> None | Some b \<Rightarrow>
     (case hex_value h3 of None \<Rightarrow> None | Some c \<Rightarrow>
     (case hex_value h4 of None \<Rightarrow> None | Some d \<Rightarrow>
        Some (of_nat (4096 * a + 256 * b + 16 * c + d))))))"

definition cons_unit :: "16 word \<Rightarrow> (jsstring \<times> jsstring) option \<Rightarrow> (jsstring \<times> jsstring) option" where
  "cons_unit u r = map_option (\<lambda>(s, rest). (u # s, rest)) r"

fun parse_string_body :: "jsstring \<Rightarrow> (jsstring \<times> jsstring) option" where
  "parse_string_body [] = None"
| "parse_string_body (c # cs) =
     (if c = QUOTE then Some ([], cs)
      else if c = BACKSLASH then
        (case cs of
           [] \<Rightarrow> None
         | e # r \<Rightarrow>
            (if e = 0x75 then
               (case r of
                  h1 # h2 # h3 # h4 # r' \<Rightarrow>
                    (case hex4 h1 h2 h3 h4 of
                       None \<Rightarrow> None
                     | Some u \<Rightarrow> cons_unit u (parse_string_body r'))
                | _ \<Rightarrow> None)
             else
               (case simple_escape e of
                  None \<Rightarrow> None
                | Some u \<Rightarrow> cons_unit u (parse_string_body r))))
      else if c < 0x20 then None
      else cons_unit c (parse_string_body cs))"

text \<open>The value of a run of decimal digits.\<close>

definition digits_value :: "jsstring \<Rightarrow> int" where
  "digits_value ds = foldl (\<lambda>acc d. 10 * acc + (uint d - 48)) 0 ds"

text \<open>
  A number literal: \<open>-? (0 | [1-9][0-9]*) (. [0-9]+)? ([eE] [+-]? [0-9]+)?\<close>. The result is
  the Number value of the decimal that the literal denotes.
\<close>

definition lex_sign :: "jsstring \<Rightarrow> bool \<times> jsstring" where
  "lex_sign cs = (case cs of [] \<Rightarrow> (False, cs) | c # r \<Rightarrow> if c = 0x2D then (True, r) else (False, cs))"

definition lex_int :: "jsstring \<Rightarrow> (jsstring \<times> jsstring) option" where
  "lex_int cs =
     (case cs of
        [] \<Rightarrow> None
      | c # r \<Rightarrow>
          if c = 0x30 then Some ([c], r)
          else if is_digit c then Some (takeWhile is_digit cs, dropWhile is_digit cs)
          else None)"

definition lex_frac :: "jsstring \<Rightarrow> (jsstring \<times> jsstring) option" where
  "lex_frac cs =
     (case cs of
        [] \<Rightarrow> Some ([], cs)
      | c # r \<Rightarrow>
          if c = 0x2E then
            (if takeWhile is_digit r = [] then None
             else Some (takeWhile is_digit r, dropWhile is_digit r))
          else Some ([], cs))"

definition lex_exp_sign :: "jsstring \<Rightarrow> bool \<times> jsstring" where
  "lex_exp_sign cs =
     (case cs of
        [] \<Rightarrow> (False, cs)
      | c # r \<Rightarrow> if c = 0x2D then (True, r) else if c = 0x2B then (False, r) else (False, cs))"

definition lex_exp :: "jsstring \<Rightarrow> (int \<times> jsstring) option" where
  "lex_exp cs =
     (case cs of
        [] \<Rightarrow> Some (0, cs)
      | c # r \<Rightarrow>
          if c = 0x65 \<or> c = 0x45 then
            (let (eneg, r1) = lex_exp_sign r; ed = takeWhile is_digit r1
             in if ed = [] then None
                else Some (if eneg then - digits_value ed else digits_value ed,
                           dropWhile is_digit r1))
          else Some (0, cs))"

definition parse_number :: "jsstring \<Rightarrow> (json \<times> jsstring) option" where
  "parse_number cs =
     (let (neg, cs1) = lex_sign cs in
      case lex_int cs1 of
        None \<Rightarrow> None
      | Some (ip, cs2) \<Rightarrow>
         (case lex_frac cs2 of
            None \<Rightarrow> None
          | Some (fp, cs3) \<Rightarrow>
             (case lex_exp cs3 of
                None \<Rightarrow> None
              | Some (ex, cs4) \<Rightarrow>
                 Some (JNum (number_of_decimal neg (digits_value (ip @ fp)) (ex - int (length fp))),
                       cs4))))"

text \<open>
  The own properties of the object a literal creates, in enumeration order: a repeated key
  keeps its first position and its last value; keys that are array indices come first, in
  ascending order.
\<close>

definition is_array_index :: "jsstring \<Rightarrow> bool" where
  "is_array_index k =
     (k \<noteq> [] \<and> list_all is_digit k \<and> (hd k \<noteq> 0x30 \<or> length k = 1)
      \<and> digits_value k < 4294967295)"

definition object_of_members :: "(jsstring \<times> json) list \<Rightarrow> (jsstring \<times> json) list" where
  "object_of_members ms =
     (let ks = rev (remdups (rev (map fst ms)));
          ordered = sort_key digits_value (filter is_array_index ks)
                    @ filter (\<lambda>k. \<not> is_array_index k) ks
      in map (\<lambda>k. (k, the (map_of (rev ms) k))) ordered)"


text \<open>
  Recursive descent over the grammar of ECMA-404. Every function takes the input at the first
  character of what it reads and returns the value with the input that follows it. The
  comparisons of lengths only make the recursion well-founded: they always hold
  (\<open>parse_value_consumes\<close>), and the parser satisfies the same equations without them
  (\<open>parse_elements_unguarded\<close>, \<open>parse_members_unguarded\<close>).
\<close>

function parse_value :: "jsstring \<Rightarrow> (json \<times> jsstring) option"
  and parse_elements :: "jsstring \<Rightarrow> (json list \<times> jsstring) option"
  and parse_members :: "jsstring \<Rightarrow> ((jsstring \<times> json) list \<times> jsstring) option"
where
  "parse_value [] = None"
| "parse_value (c # r) =
     (if c = LBRACE then
        (case skip_ws r of
           [] \<Rightarrow> None
         | d # r' \<Rightarrow>
             if d = RBRACE then Some (JObj [], r')
             else map_option (\<lambda>(ms, rest). (JObj (object_of_members ms), rest))
                    (parse_members (d # r')))
      else if c = LBRACKET then
        (case skip_ws r of
           [] \<Rightarrow> None
         | d # r' \<Rightarrow>
             if d = RBRACKET then Some (JArr [], r')
             else map_option (\<lambda>(xs, rest). (JArr xs, rest)) (parse_elements (d # r')))
      else if c = QUOTE then map_option (\<lambda>(s, rest). (JStr s, rest)) (parse_string_body r)
      else if c = 0x74 then (if take 3 r = js ''rue'' then Some (JBool True, drop 3 r) else None)
      else if c = 0x66 then (if take 4 r = js ''alse'' then Some (JBool False, drop 4 r) else None)
      else if c = 0x6E then (if take 3 r = js ''ull'' then Some (JNull, drop 3 r) else None)
      else if c = 0x2D \<or> is_digit c then parse_number (c # r)
      else None)"
| "parse_elements [] = None"
| "parse_elements (c # r) =
     (case parse_value (c # r) of
        None \<Rightarrow> None
      | Some (v, r1) \<Rightarrow>
         (case skip_ws r1 of
            [] \<Rightarrow> None
          | d # r2 \<Rightarrow>
              if d = RBRACKET then Some ([v], r2)
              else if d = COMMA \<and> length r2 < length (c # r) then
                map_option (\<lambda>(vs, rest). (v # vs, rest)) (parse_elements (skip_ws r2))
              else None))"
| "parse_members [] = None"
| "parse_members (c # r) =
     (if c = QUOTE then
        (case parse_string_body r of
           None \<Rightarrow> None
         | Some (k, r1) \<Rightarrow>
            (case skip_ws r1 of
               [] \<Rightarrow> None
             | d # r2 \<Rightarrow>
                 if d = COLON \<and> length r2 < length r then
                   (case parse_value (skip_ws r2) of
                      None \<Rightarrow> None
                    | Some (v, r3) \<Rightarrow>
                       (case skip_ws r3 of
                          [] \<Rightarrow> None
                        | x # r4 \<Rightarrow>
                            if x = RBRACE then Some ([(k, v)], r4)
                            else if x = COMMA \<and> length r4 < length r then
                              map_option (\<lambda>(ms, rest). ((k, v) # ms, rest))
                                (parse_members (skip_ws r4))
                            else None))
                 else None))
      else None)"
  by pat_completeness auto

termination
proof (relation "measure (\<lambda>x. case x of
          Inl cs \<Rightarrow> 2 * length cs
        | Inr (Inl cs) \<Rightarrow> 2 * length cs + 1
        | Inr (Inr cs) \<Rightarrow> 2 * length cs + 1)", goal_cases)
  have le: "length (skip_ws cs) \<le> length cs" for cs
    by (simp add: skip_ws_def length_dropWhile_le)
  have lt: "length r < length cs" if "skip_ws cs = d # r" for cs d r
    using le [of cs] that by simp
  {
    case 1
    show ?case by simp
  next
    case (2 c r d r')
    then show ?case using lt [of r d r'] by simp
  next
    case (3 c r d r')
    then show ?case using lt [of r d r'] by simp
  next
    case (4 c r)
    show ?case by simp
  next
    case (5 c r x v r1 d r2)
    then show ?case using le [of r2] by simp
  next
    case (6 c r x k r1 d r2)
    then show ?case using le [of r2] by simp
  next
    case (7 c r x k r1 d r2 y v r3 z r4)
    then show ?case using le [of r4] by simp
  }
qed

definition JSON_parse :: "jsstring \<Rightarrow> json option" where
  "JSON_parse s =
     (case parse_value (skip_ws s) of
        None \<Rightarrow> None
      | Some (v, rest) \<Rightarrow> if skip_ws rest = [] then Some v else None)"


section \<open>String helpers\<close>

text \<open>\<open>s.indexOf(c)\<close> and \<open>s.lastIndexOf(c)\<close> for a one-character needle: \<open>-1\<close> when absent.\<close>

fun indexOf :: "jsstring \<Rightarrow> 16 word \<Rightarrow> int" where
  "indexOf [] c = - 1"
| "indexOf (x # xs) c =
     (if x = c then 0 else (let i = indexOf xs c in if i = - 1 then - 1 else i + 1))"

definition lastIndexOf :: "jsstring \<Rightarrow> 16 word \<Rightarrow> int" where
  "lastIndexOf s c =
     (let i = indexOf (rev s) c in if i = - 1 then - 1 else int (length s) - 1 - i)"

text \<open>\<open>s.slice(a, b)\<close> for \<open>0 \<le> a\<close> and \<open>0 \<le> b\<close>.\<close>

definition slice :: "jsstring \<Rightarrow> nat \<Rightarrow> nat \<Rightarrow> jsstring" where
  "slice s a b = take (b - a) (drop a s)"

text \<open>The code units \<open>String.prototype.trim\<close> removes: white space and line terminators.\<close>

definition is_js_space :: "16 word \<Rightarrow> bool" where
  "is_js_space c =
     (c = 0x09 \<or> c = 0x0A \<or> c = 0x0B \<or> c = 0x0C \<or> c = 0x0D \<or> c = 0x20 \<or> c = 0xA0
      \<or> c = 0x1680 \<or> (0x2000 \<le> c \<and> c \<le> 0x200A) \<or> c = 0x2028 \<or> c = 0x2029
      \<or> c = 0x202F \<or> c = 0x205F \<or> c = 0x3000 \<or> c = 0xFEFF)"

definition trim :: "jsstring \<Rightarrow> jsstring" where
  "trim s = rev (dropWhile is_js_space (rev (dropWhile is_js_space s)))"

section \<open>Request validation\<close>

text \<open>
  \<open>req.body\<close> as \<open>express.json()\<close> delivers it: the own properties of the parsed object. (An
  array body has none of the named fields and is answered like the empty object.)
\<close>

type_synonym jsobject = "(jsstring \<times> json) list"

definition required :: "jsstring list" where
  "required = map js [''scene_type'', ''event_id'', ''world_summary'', ''event_card'',
                      ''recent_memory'', ''player_input'']"

text \<open>
  The validator of the structured-JSON variant: \<open>null\<close> is \<open>None\<close>. \<open>key in body\<close> looks
  for an own property, since no prototype of a parsed object has one of the six names.
\<close>

definition validateGenerateBody :: "jsobject \<Rightarrow> jsstring option" where
  "validateGenerateBody body =
     (case find (\<lambda>key. key \<notin> fst ` set body) required of
        Some key \<Rightarrow> Some (js ''Missing field: '' @ key)
      | None \<Rightarrow>
          if map_of body (js ''scene_type'')
               \<notin> {Some (JStr (js ''choice_point'')), Some (JStr (js ''narration''))}
          then Some (js ''scene_type must be 'choice_point' or 'narration'' @ [0x27])
          else None)"

text \<open>The validator of \<open>server.js\<close> and of the prose variant with the size guard.\<close>

definition validateGenerateBody_prose :: "jsobject \<Rightarrow> jsstring option" where
  "validateGenerateBody_prose body =
     (case find (\<lambda>key. key \<notin> fst ` set body) required of
        Some key \<Rightarrow> Some (js ''Missing field: '' @ key)
      | None \<Rightarrow>
          if map_of body (js ''scene_type'')
               \<notin> {Some (JStr (js ''scene_only'')), Some (JStr (js ''choice_point''))}
          then Some (js ''scene_type must be 'scene_only' or 'choice_point'' @ [0x27])
          else None)"

section \<open>Recovery parsing of the model output\<close>

text \<open>
  What \<open>tryParseModelJson\<close> throws: the SyntaxError of the second \<open>JSON.parse\<close> (its
  message depends on the engine and is never read), or its own \<open>Error("Invalid JSON")\<close>.
\<close>

datatype parse_error = SyntaxError | InvalidJSON

definition tryParseModelJson :: "jsstring \<Rightarrow> parse_error + json" where
  "tryParseModelJson raw =
     (case JSON_parse raw of
        Some v \<Rightarrow> Inr v
      | None \<Rightarrow>
         (let start = indexOf raw LBRACE;
              end' = lastIndexOf raw RBRACE
          in if start \<noteq> - 1 \<and> end' \<noteq> - 1 \<and> end' > start then
               (let sliced = slice raw (nat start) (nat (end' + 1))
                in case JSON_parse sliced of Some v \<Rightarrow> Inr v | None \<Rightarrow> Inl SyntaxError)
             else Inl InvalidJSON))"


section \<open>The outside world of one request\<close>

text \<open>
  What a request handler reads from outside the program: the lore file (\<open>readFileSync\<close>
  returns its text or throws), the completion API (a call returns the content of the first
  choice, \<open>None\<close> when it is missing or \<open>null\<close>, and the usage, or throws), and the
  environment variables \<open>OPENAI_API_KEY\<close> and \<open>MODEL\<close>.
\<close>

record api_request =
  model :: jsstring
  system_content :: jsstring
  user_content :: jsstring
  max_tokens :: nat
  temperature :: json

datatype api_result =
    ApiThrows thrown
  | ApiReturns (api_content: "jsstring option") (api_usage: "json option")

record world =
  bible_file :: "thrown + jsstring"
  api :: "api_request \<Rightarrow> api_result"
  OPENAI_API_KEY :: "jsstring option"
  MODEL :: "jsstring option"

record response =
  status :: nat
  body :: json

definition MAX_INPUT_CHARS :: nat where
  "MAX_INPUT_CHARS = 12000"

definition MAX_TOKENS :: nat where
  "MAX_TOKENS = 450"

definition bind_thrown :: "thrown + 'a \<Rightarrow> ('a \<Rightarrow> thrown + 'b) \<Rightarrow> thrown + 'b" where
  "bind_thrown x f = (case x of Inl e \<Rightarrow> Inl e | Inr a \<Rightarrow> f a)"

text \<open>A template literal converts each substitution with ToString, which may throw.\<close>

definition template :: "json option \<Rightarrow> thrown + jsstring" where
  "template v =
     (case v of
        None \<Rightarrow> Inr (js ''undefined'')
      | Some x \<Rightarrow> (case js_ToString x of None \<Rightarrow> Inl TypeError_primitive | Some t \<Rightarrow> Inr t))"

section \<open>The structured-JSON variant\<close>

subsection \<open>Sessions\<close>

record stats =
  health :: int
  reputation :: int
  money :: int

record session =
  recent_memory :: jsstring
  session_stats :: stats

text \<open>
  The session \<open>Map\<close>. A \<open>Map\<close> finds a key by SameValueZero: a primitive by its value, an
  array or an object only when it is the same object. Every \<open>session_id\<close> is taken from a
  freshly parsed body, so an entry under an array or object is never found again; the store
  of the model keeps the entries under primitive keys only. The two zeros are one key.
\<close>

type_synonym sessions = "json \<Rightarrow> session option"

fun map_key :: "json \<Rightarrow> json option" where
  "map_key (JArr xs) = None"
| "map_key (JObj kvs) = None"
| "map_key (JNum x) = (if is_zero x then Some (JNum (Finite False 0 0)) else Some (JNum x))"
| "map_key v = Some v"

definition default_stats :: stats where
  "default_stats = \<lparr>health = 10, reputation = 0, money = 0\<rparr>"

definition new_session :: session where
  "new_session = \<lparr>recent_memory = [], session_stats = default_stats\<rparr>"

definition getSession :: "sessions \<Rightarrow> json \<Rightarrow> session \<times> sessions" where
  "getSession sessions sessionId =
     (case map_key sessionId of
        None \<Rightarrow> (new_session, sessions)
      | Some k \<Rightarrow>
         (case sessions k of
            None \<Rightarrow> (new_session, sessions(k \<mapsto> new_session))
          | Some s \<Rightarrow> (s, sessions)))"

text \<open>The memory that a request with this \<open>session_id\<close> reads.\<close>

definition session_memory :: "sessions \<Rightarrow> json \<Rightarrow> jsstring" where
  "session_memory sessions sessionId = recent_memory (fst (getSession sessions sessionId))"

text \<open>The write through the reference \<open>s\<close> that \<open>getSession\<close> returned.\<close>

definition put_session :: "sessions \<Rightarrow> json \<Rightarrow> session \<Rightarrow> sessions" where
  "put_session sessions sessionId s =
     (case map_key sessionId of None \<Rightarrow> sessions | Some k \<Rightarrow> sessions(k \<mapsto> s))"

subsection \<open>The prompt\<close>

record payload =
  p_scene_type :: jsstring
  p_event_id :: jsstring
  p_world_summary :: jsstring
  p_event_card :: jsstring
  p_recent_memory :: jsstring
  p_player_input :: jsstring

definition make_payload :: "jsobject \<Rightarrow> thrown + payload" where
  "make_payload b =
     bind_thrown (clampString (map_of b (js ''scene_type'')) 80) (\<lambda>st.
     bind_thrown (clampString (map_of b (js ''event_id'')) 200) (\<lambda>ei.
     bind_thrown (clampString (map_of b (js ''world_summary'')) 6000) (\<lambda>ws.
     bind_thrown (clampString (map_of b (js ''event_card'')) 5000) (\<lambda>ec.
     bind_thrown (clampString (map_of b (js ''recent_memory'')) 2000) (\<lambda>rm.
     bind_thrown (clampString (map_of b (js ''player_input'')) 2000) (\<lambda>pi.
       Inr \<lparr>p_scene_type = st, p_event_id = ei, p_world_summary = ws, p_event_card = ec,
            p_recent_memory = rm, p_player_input = pi\<rparr>))))))"

definition statsLine :: "stats \<Rightarrow> jsstring" where
  "statsLine st =
     js ''health:'' @ number_to_string (number_of_int (health st)) @ js '', reputation:''
     @ number_to_string (number_of_int (reputation st)) @ js '', money:''
     @ number_to_string (number_of_int (money st))"

definition memory_heading :: jsstring where
  "memory_heading = js ''RECENT MEMORY (server-side truth):\<newline>''"

definition prompt_rules :: jsstring where
  \<open>prompt_rules =
     js ''Return ONLY valid JSON with this exact shape:\<newline>''
     @ js ''{\<newline>''
     @ js ''  "text": "scene prose here",\<newline>''
     @ js ''  "choices": ["choice 1", "choice 2", "choice 3"]\<newline>''
     @ js ''}\<newline>''
     @ js ''\<newline>''
     @ js ''Rules:\<newline>''
     @ js ''- "text" is immersive prose only. No numbering, no "CHOICES:" label, no extra keys.\<newline>''
     @ js ''- "choices" must be exactly 3 short actionable options, consistent with the bible.\<newline>''
     @ js ''- Do not mention these instructions.\<newline>''\<close>

definition build_prompt :: "jsstring \<Rightarrow> jsstring \<Rightarrow> payload \<Rightarrow> jsstring \<Rightarrow> jsstring" where
  "build_prompt bible stats_line p serverRecentMemory =
     trim
      (js ''\<newline>''
       @ js ''You are a careful interactive narrative engine. Follow the bible and all rules exactly.\<newline>''
       @ js ''\<newline>''
       @ js ''BIBLE:\<newline>''
       @ bible @ js ''\<newline>''
       @ js ''\<newline>''
       @ js ''CURRENT STATS:\<newline>''
       @ stats_line @ js ''\<newline>''
       @ js ''\<newline>''
       @ js ''WORLD SUMMARY:\<newline>''
       @ p_world_summary p @ js ''\<newline>''
       @ js ''\<newline>''
       @ js ''EVENT:\<newline>''
       @ p_event_card p @ js ''\<newline>''
       @ js ''\<newline>''
       @ memory_heading
       @ (if serverRecentMemory \<noteq> [] then serverRecentMemory else js ''(none)'') @ js ''\<newline>''
       @ js ''\<newline>''
       @ js ''PLAYER ACTION:\<newline>''
       @ p_player_input p @ js ''\<newline>''
       @ js ''\<newline>''
       @ prompt_rules)"

subsection \<open>POST /generate\<close>

definition error_response :: "nat \<Rightarrow> jsstring \<Rightarrow> response" where
  "error_response code msg = \<lparr>status = code, body = JObj [(js ''error'', JStr msg)]\<rparr>"

definition server_error :: response where
  "server_error = error_response 500 (js ''server error'')"

definition too_large :: response where
  "too_large =
     error_response 413 (js ''Input too large. Reduce world_summary/event_card/recent_memory.'')"

definition stats_json :: "stats \<Rightarrow> json" where
  "stats_json st =
     JObj [(js ''health'', JNum (number_of_int (health st))),
           (js ''reputation'', JNum (number_of_int (reputation st))),
           (js ''money'', JNum (number_of_int (money st)))]"

definition Array_isArray :: "json option \<Rightarrow> bool" where
  "Array_isArray v = (case v of Some (JArr xs) \<Rightarrow> True | _ \<Rightarrow> False)"

definition array_items :: "json option \<Rightarrow> json list" where
  "array_items v = (case v of Some (JArr xs) \<Rightarrow> xs | _ \<Rightarrow> [])"

text \<open>
  The template literal of the turn summary; the two conversions may throw.
\<close>

definition turnBlock :: "payload \<Rightarrow> json option \<Rightarrow> json list \<Rightarrow> thrown + jsstring" where
  "turnBlock p text choices =
     bind_thrown (template text) (\<lambda>t.
     bind_thrown (case array_join choices (js '' | '') of
                    None \<Rightarrow> Inl TypeError_primitive | Some c \<Rightarrow> Inr c) (\<lambda>c.
       Inr (js ''PLAYER: '' @ p_player_input p @ js ''\<newline>RESULT: '' @ t
            @ js ''\<newline>CHOICES: '' @ c)))"

definition session_id_of :: "jsobject \<Rightarrow> json" where
  "session_id_of b = (case map_of b (js ''session_id'') of None \<Rightarrow> JStr (js ''demo'') | Some v \<Rightarrow> v)"

definition completion_request :: "jsstring \<Rightarrow> api_request" where
  "completion_request prompt =
     \<lparr>model = js ''gpt-4o-mini'',
      system_content = js ''You are an interactive narrative engine.'',
      user_content = prompt, max_tokens = MAX_TOKENS, temperature = JNum (number_of_decimal False 9 (- 1))\<rparr>"

definition not_json_response :: "jsstring \<Rightarrow> response" where
  "not_json_response raw =
     \<lparr>status = 500,
      body = JObj [(js ''error'', JStr (js ''Model did not return valid JSON'')), (js ''raw'', JStr raw)]\<rparr>"

definition bad_shape_response :: "json \<Rightarrow> jsstring \<Rightarrow> response" where
  "bad_shape_response parsed raw =
     \<lparr>status = 500,
      body = JObj [(js ''error'', JStr (js ''Bad JSON shape from model'')), (js ''parsed'', parsed),
                   (js ''raw'', JStr raw)]\<rparr>"

definition success_response :: "json \<Rightarrow> json \<Rightarrow> json list \<Rightarrow> stats \<Rightarrow> response" where
  "success_response session_id text choices st =
     \<lparr>status = 200,
      body = JObj [(js ''session_id'', session_id), (js ''text'', text), (js ''choices'', JArr choices),
                   (js ''stats'', stats_json st)]\<rparr>"

text \<open>
  The test \<open>!parsed?.text || !Array.isArray(parsed.choices) || parsed.choices.length !== 3\<close>.
\<close>

definition bad_json_shape :: "json \<Rightarrow> bool" where
  "bad_json_shape parsed \<longleftrightarrow>
     \<not> truthy (get_prop parsed (js ''text''))
     \<or> \<not> Array_isArray (get_prop parsed (js ''choices''))
     \<or> length (array_items (get_prop parsed (js ''choices''))) \<noteq> 3"

text \<open>The memory with the turn summary appended, before it is clamped again.\<close>

definition append_turn :: "jsstring \<Rightarrow> jsstring \<Rightarrow> jsstring" where
  "append_turn memory block = (if memory \<noteq> [] then memory @ js ''\<newline>\<newline>'' else []) @ block"

text \<open>
  The handler returns the response, the session store it leaves, and the calls it made to
  the completion API, in order. An exception thrown inside the \<open>try\<close> block is caught with
  the effects made so far: the session that \<open>getSession\<close> created and the call already made.
\<close>

definition generate :: "world \<Rightarrow> sessions \<Rightarrow> jsobject \<Rightarrow> response \<times> sessions \<times> api_request list" where
  "generate w sessions b =
     (let err = validateGenerateBody b in
      if truthy (map_option JStr err) then (error_response 400 (the err), sessions, [])
      else
        let session_id = session_id_of b;
            combinedLen = length (JSON_stringify (JObj b))
        in
        if combinedLen > MAX_INPUT_CHARS then (too_large, sessions, [])
        else
          let (s, sessions1) = getSession sessions session_id in
          case clampString (Some (JStr (recent_memory s))) 4000 of
            Inl e \<Rightarrow> (server_error, sessions1, [])
          | Inr serverRecentMemory \<Rightarrow>
          (case bible_file w of
            Inl e \<Rightarrow> (server_error, sessions1, [])
          | Inr bible \<Rightarrow>
          (case make_payload b of
            Inl e \<Rightarrow> (server_error, sessions1, [])
          | Inr p \<Rightarrow>
          (let prompt = build_prompt bible (statsLine (session_stats s)) p serverRecentMemory;
               request = completion_request prompt
           in
           case api w request of
             ApiThrows e \<Rightarrow> (server_error, sessions1, [request])
           | ApiReturns content usage \<Rightarrow>
           (let raw = (case content of None \<Rightarrow> [] | Some c \<Rightarrow> c) in
            case tryParseModelJson raw of
              Inl e \<Rightarrow> (not_json_response raw, sessions1, [request])
            | Inr parsed \<Rightarrow>
               (let text = get_prop parsed (js ''text'');
                    choices = get_prop parsed (js ''choices'')
                in
                if bad_json_shape parsed
                then (bad_shape_response parsed raw, sessions1, [request])
                else
                  (case turnBlock p text (array_items choices) of
                     Inl e \<Rightarrow> (server_error, sessions1, [request])
                   | Inr block \<Rightarrow>
                      (case clampString (Some (JStr (append_turn (recent_memory s) block))) 4000 of
                         Inl e \<Rightarrow> (server_error, sessions1, [request])
                       | Inr memory \<Rightarrow>
                          (success_response session_id (the text) (array_items choices)
                             (session_stats s),
                           put_session sessions1 session_id (s\<lparr>recent_memory := memory\<rparr>),
                           [request])))))))))"

section \<open>The prose variant with the size guard\<close>

record relay_payload =
  r_session_id :: jsstring
  r_scene_type :: "json option"
  r_event_id :: jsstring
  r_world_summary :: jsstring
  r_event_card :: jsstring
  r_recent_memory :: jsstring
  r_player_input :: jsstring

definition relay_payload :: "jsobject \<Rightarrow> thrown + relay_payload" where
  "relay_payload b =
     bind_thrown (clampString (if truthy (map_of b (js ''session_id'')) then map_of b (js ''session_id'')
                               else Some (JStr (js ''demo''))) 80) (\<lambda>si.
     bind_thrown (clampString (map_of b (js ''event_id'')) 200) (\<lambda>ei.
     bind_thrown (clampString (map_of b (js ''world_summary'')) 6000) (\<lambda>ws.
     bind_thrown (clampString (map_of b (js ''event_card'')) 5000) (\<lambda>ec.
     bind_thrown (clampString (map_of b (js ''recent_memory'')) 4000) (\<lambda>rm.
     bind_thrown (clampString (map_of b (js ''player_input'')) 2000) (\<lambda>pi.
       Inr \<lparr>r_session_id = si, r_scene_type = map_of b (js ''scene_type''), r_event_id = ei,
            r_world_summary = ws, r_event_card = ec, r_recent_memory = rm,
            r_player_input = pi\<rparr>))))))"

definition buildSystemPrompt :: "json option \<Rightarrow> thrown + jsstring" where
  "buildSystemPrompt sceneType =
     bind_thrown (template sceneType) (\<lambda>st.
       Inr (trim
         (js ''\<newline>''
          @ js ''You are the narrative engine for a text-only single-player pirate campaign.\<newline>''
          @ js ''\<newline>''
          @ js ''MANDATORY RULES:\<newline>''
          @ js ''- Write immersive, literary prose. 2'' @ [0xE2, 0x20AC, 0x201C]
          @ js ''3 paragraphs maximum.\<newline>''
          @ js ''- Never use tabletop / game-master tone. Never say '' @ [0xE2, 0x20AC, 0x153]
          @ js ''What do you do?'' @ [0xE2, 0x20AC] @ js ''\<newline>''
          @ js ''- Foreground actionable objects clearly (do not hide interactables).\<newline>''
          @ js ''- Use descriptors over names; introduce at most ONE new proper name per response.\<newline>''
          @ js ''- Do not invent major plot beats beyond the provided event card.\<newline>''
          @ js ''\<newline>''
          @ js ''TURN PROTOCOL (MANDATORY):\<newline>''
          @ js ''- If scene_type == scene_only: you may narrate the scene and end naturally.\<newline>''
          @ js ''- If scene_type == choice_point:\<newline>''
          @ js ''  - End narration after the final sentence.\<newline>''
          @ js ''  - DO NOT continue the story.\<newline>''
          @ js ''  - DO NOT narrate consequences.\<newline>''
          @ js ''  - Output MUST stop immediately.\<newline>''
          @ js ''  - End with the marker on its own line:\<newline>''
          @ js ''    [AWAIT PLAYER ACTION]\<newline>''
          @ js ''\<newline>''
          @ js ''You must obey the Turn Protocol for the provided scene_type: '' @ st
          @ js ''.\<newline>'')))"

definition buildUserPrompt :: "relay_payload \<Rightarrow> jsstring" where
  "buildUserPrompt p =
     trim
      (js ''\<newline>''
       @ js ''WORLD SUMMARY:\<newline>''
       @ r_world_summary p @ js ''\<newline>''
       @ js ''\<newline>''
       @ js ''CURRENT EVENT CARD (FOLLOW THIS):\<newline>''
       @ r_event_card p @ js ''\<newline>''
       @ js ''\<newline>''
       @ js ''RECENT MEMORY (MOST RECENT LAST):\<newline>''
       @ r_recent_memory p @ js ''\<newline>''
       @ js ''\<newline>''
       @ js ''PLAYER INPUT:\<newline>''
       @ r_player_input p @ js ''\<newline>''
       @ js ''\<newline>''
       @ js ''Write the next response for event_id='' @ r_event_id p @ js ''.\<newline>'')"

text \<open>\<open>String(e?.message || e)\<close> for a thrown error: its message, or its name when that is empty.\<close>

definition error_detail :: "thrown \<Rightarrow> jsstring" where
  "error_detail e = (if thrown_message e \<noteq> [] then thrown_message e else thrown_name e)"

definition relay_error :: "thrown \<Rightarrow> response" where
  "relay_error e =
     \<lparr>status = 500,
      body = JObj [(js ''error'', JStr (js ''Server error'')), (js ''detail'', JStr (error_detail e))]\<rparr>"

definition generate_relay :: "world \<Rightarrow> jsobject \<Rightarrow> response \<times> api_request list" where
  "generate_relay w b =
     (let err = validateGenerateBody_prose b in
      if truthy (map_option JStr err) then (error_response 400 (the err), [])
      else
        let combined = length (JSON_stringify (JObj b)) in
        if combined > MAX_INPUT_CHARS then (too_large, [])
        else
          case relay_payload b of
            Inl e \<Rightarrow> (relay_error e, [])
          | Inr p \<Rightarrow>
             if \<not> truthy (map_option JStr (OPENAI_API_KEY w)) then
               (error_response 500 (js ''Missing OPENAI_API_KEY in .env''), [])
             else
               (case buildSystemPrompt (r_scene_type p) of
                  Inl e \<Rightarrow> (relay_error e, [])
                | Inr sys \<Rightarrow>
                   (let request = \<lparr>model = (if truthy (map_option JStr (MODEL w)) then the (MODEL w)
                                              else js ''gpt-4o-mini''),
                                     system_content = sys, user_content = buildUserPrompt p,
                                     max_tokens = MAX_TOKENS, temperature = JNum (number_of_decimal False 8 (- 1))\<rparr>
                    in case api w request of
                         ApiThrows e \<Rightarrow> (relay_error e, [request])
                       | ApiReturns content usage \<Rightarrow>
                          (\<lparr>status = 200,
                            body = JObj [(js ''text'', JStr (case content of None \<Rightarrow> [] | Some c \<Rightarrow> c)),
                                         (js ''usage'', (case usage of None \<Rightarrow> JNull | Some u \<Rightarrow> u))]\<rparr>,
                           [request]))))"

section \<open>server.js\<close>

text \<open>The destructuring of \<open>req.body\<close>, with the default of \<open>session_id\<close>.\<close>

record server_locals =
  l_scene_type :: "json option"
  l_event_id :: "json option"
  l_world_summary :: "json option"
  l_event_card :: "json option"
  l_recent_memory :: "json option"
  l_player_input :: "json option"
  l_session_id :: json

definition server_locals :: "jsobject \<Rightarrow> server_locals" where
  "server_locals b =
     \<lparr>l_scene_type = map_of b (js ''scene_type''), l_event_id = map_of b (js ''event_id''),
      l_world_summary = map_of b (js ''world_summary''), l_event_card = map_of b (js ''event_card''),
      l_recent_memory = map_of b (js ''recent_memory''), l_player_input = map_of b (js ''player_input''),
      l_session_id = session_id_of b\<rparr>"




section \<open>A sequence of requests\<close>

text \<open>
  The server answers one request after the other; each request meets its own outside world.
  \<open>run\<close> gives the responses in order and the session store that is left.
\<close>

fun run :: "sessions \<Rightarrow> (world \<times> jsobject) list \<Rightarrow> response list \<times> sessions" where
  "run sessions [] = ([], sessions)"
| "run sessions ((w, b) # rest) =
     (let (r, sessions1, calls) = generate w sessions b;
          (rs, sessions2) = run sessions1 rest
      in (r # rs, sessions2))"

section \<open>Example inputs\<close>

definition example_world :: world where
  \<open>example_world =
     \<lparr>bible_file = Inr (js ''LORE''),
      api = (\<lambda>r. ApiReturns (Some (js ''Note: {"text":"A","choices":["a","b","c"]} thanks'')) None),
      OPENAI_API_KEY = Some (js ''sk-test''),
      MODEL = None\<rparr>\<close>

definition example_body :: jsobject where
  "example_body =
     [(js ''scene_type'', JStr (js ''choice_point'')), (js ''event_id'', JStr (js ''e1'')),
      (js ''world_summary'', JStr (js ''sea'')), (js ''event_card'', JStr (js ''storm'')),
      (js ''recent_memory'', JStr []), (js ''player_input'', JStr (js ''hoist''))]"

definition example_json_text :: jsstring where
  \<open>example_json_text = js ''{"text":"A","choices":["a","b","c"]}''\<close>

definition example_json :: json where
  "example_json =
     JObj [(js ''text'', JStr (js ''A'')),
           (js ''choices'', JArr [JStr (js ''a''), JStr (js ''b''), JStr (js ''c'')])]"

definition oversized_body :: jsobject where
  "oversized_body =
     [(js ''scene_type'', JStr (js ''choice_point'')), (js ''event_id'', JStr (js ''e1'')),
      (js ''world_summary'', JStr (replicate 12000 0x61)), (js ''event_card'', JStr (js ''storm'')),
      (js ''recent_memory'', JStr []), (js ''player_input'', JStr (js ''hoist''))]"

definition oversized_incomplete_body :: jsobject where
  "oversized_incomplete_body = [(js ''world_summary'', JStr (replicate 12000 0x61))]"

definition two_choices_text :: jsstring where
  \<open>two_choices_text = js ''{"text":"A","choices":["a","b"]}''\<close>

definition two_choices_json :: json where
  "two_choices_json =
     JObj [(js ''text'', JStr (js ''A'')), (js ''choices'', JArr [JStr (js ''a''), JStr (js ''b'')])]"

definition two_choices_world :: world where
  "two_choices_world = example_world\<lparr>api := (\<lambda>r. ApiReturns (Some two_choices_text) None)\<rparr>"

text \<open>A model output whose \<open>text\<close> is a number too small for a double: it is zero.\<close>

definition tiny_text_text :: jsstring where
  \<open>tiny_text_text = js ''{"text":1e-400,"choices":["a","b","c"]}''\<close>

definition tiny_text_json :: json where
  "tiny_text_json =
     JObj [(js ''text'', JNum (Finite False 0 0)),
           (js ''choices'', JArr [JStr (js ''a''), JStr (js ''b''), JStr (js ''c'')])]"

definition tiny_text_world :: world where
  "tiny_text_world = example_world\<lparr>api := (\<lambda>r. ApiReturns (Some tiny_text_text) None)\<rparr>"

text \<open>A body whose \<open>session_id\<close> is an array.\<close>

definition array_session_body :: jsobject where
  "array_session_body = (js ''session_id'', JArr []) # example_body"

definition example_payload :: payload where
  "example_payload =
     \<lparr>p_scene_type = js ''choice_point'', p_event_id = js ''e1'', p_world_summary = js ''sea'',
      p_event_card = js ''storm'', p_recent_memory = [], p_player_input = js ''hoist''\<rparr>"

definition example_block :: jsstring where
  "example_block = js ''PLAYER: hoist\<newline>RESULT: A\<newline>CHOICES: a | b | c''"

definition three_requests :: "(world \<times> jsobject) list" where
  "three_requests =
     [(example_world, example_body), (two_choices_world, example_body), (example_world, example_body)]"

definition no_key_world :: world where
  "no_key_world = example_world\<lparr>OPENAI_API_KEY := None\<rparr>"

definition connection_error :: thrown where
  "connection_error = Thrown (js ''Error'') (js ''Connection error.'')"

definition failing_world :: world where
  "failing_world = example_world\<lparr>api := (\<lambda>r. ApiThrows connection_error)\<rparr>"

definition prose_world :: world where
  "prose_world = example_world\<lparr>api := (\<lambda>r. ApiReturns (Some (js ''The sea is calm.'')) None)\<rparr>"

text \<open>A request whose \<open>player_input\<close> has the full 2000 characters.\<close>

definition long_body :: jsobject where
  "long_body =
     [(js ''scene_type'', JStr (js ''choice_point'')), (js ''event_id'', JStr (js ''e1'')),
      (js ''world_summary'', JStr (js ''sea'')), (js ''event_card'', JStr (js ''storm'')),
      (js ''recent_memory'', JStr []), (js ''player_input'', JStr (replicate 2000 0x61))]"

definition long_payload :: payload where
  "long_payload = example_payload\<lparr>p_player_input := replicate 2000 0x61\<rparr>"

definition long_block :: jsstring where
  "long_block =
     js ''PLAYER: '' @ replicate 2000 0x61 @ js ''\<newline>RESULT: A\<newline>CHOICES: a | b | c''"

definition memory_filling_requests :: "(world \<times> jsobject) list" where
  "memory_filling_requests = [(example_world, long_body), (example_world, long_body)]"

section \<open>Properties\<close>

subsection \<open>Numbers\<close>

lemma number_of_int_10: "number_of_int 10 = Finite False 5 1"
  by code_simp

lemma number_of_int_0: "number_of_int 0 = Finite False 0 0"
  by code_simp

lemma number_to_string_10: "number_to_string (Finite False 5 1) = js ''10''"
  by code_simp

lemma number_to_string_0: "number_to_string (Finite neg 0 0) = js ''0''"
  by (simp add: number_to_string_def)

text \<open>A literal too small for a double is a zero, one too large an infinity.\<close>

lemma number_of_decimal_underflow: "number_of_decimal False 1 (- 400) = Finite False 0 0"
  by code_simp

lemma number_of_decimal_overflow: "number_of_decimal False 1 400 = Infinity False"
  by code_simp

lemma number_of_decimal_tenth:
  "number_of_decimal False 1 (- 1) = Finite False 3602879701896397 (- 55)
   \<and> number_to_string (Finite False 3602879701896397 (- 55)) = js ''0.1''"
  by code_simp


lemma js_length [simp]: "length (js s) = length s"
  by (simp add: js_def)

subsection \<open>The parser consumes its input\<close>

lemma cons_unit_Some:
  "cons_unit u x = Some (s, r) \<Longrightarrow> \<exists>s'. x = Some (s', r)"
  by (cases x) (auto simp: cons_unit_def)

lemma parse_string_body_consumes:
  "parse_string_body cs = Some (s, r) \<Longrightarrow> length r < length cs"
proof (induction cs arbitrary: s r rule: length_induct)
  case (1 cs)
  then have IH: "\<And>ys s r. length ys < length cs \<Longrightarrow> parse_string_body ys = Some (s, r)
      \<Longrightarrow> length r < length ys"
    by blast
  show ?case
  proof (cases cs)
    case Nil
    with "1.prems" show ?thesis by simp
  next
    case (Cons c cs')
    consider (quote) "c = QUOTE"
      | (plain) "c \<noteq> QUOTE" "c \<noteq> BACKSLASH"
      | (esc) "c \<noteq> QUOTE" "c = BACKSLASH"
      by blast
    then show ?thesis
    proof cases
      case quote
      with Cons "1.prems" show ?thesis by simp
    next
      case plain
      with Cons "1.prems" obtain s' where "parse_string_body cs' = Some (s', r)"
        by (auto dest: cons_unit_Some split: if_splits)
      from IH [OF _ this] Cons show ?thesis by simp
    next
      case esc
      with Cons "1.prems" obtain e rest where cs': "cs' = e # rest" by (cases cs') auto
      show ?thesis
      proof (cases "e = 0x75")
        case True
        with esc Cons cs' "1.prems" obtain h1 h2 h3 h4 r' s' where
          r: "rest = h1 # h2 # h3 # h4 # r'" "parse_string_body r' = Some (s', r)"
          by (auto dest: cons_unit_Some split: list.splits option.splits)
        from IH [OF _ r(2)] Cons cs' r(1) show ?thesis by simp
      next
        case False
        with esc Cons cs' "1.prems" obtain s' where r: "parse_string_body rest = Some (s', r)"
          by (auto dest: cons_unit_Some split: option.splits)
        from IH [OF _ r] Cons cs' show ?thesis by simp
      qed
    qed
  qed
qed

lemma length_skip_ws: "length (skip_ws cs) \<le> length cs"
  by (simp add: skip_ws_def length_dropWhile_le)

lemma skip_ws_Cons: "skip_ws cs = d # r \<Longrightarrow> length r < length cs"
  using length_skip_ws [of cs] by simp

lemma lex_int_consumes: "lex_int cs = Some (ip, r) \<Longrightarrow> length r < length cs"
proof (cases cs)
  case Nil
  then show "lex_int cs = Some (ip, r) \<Longrightarrow> length r < length cs" by (simp add: lex_int_def)
next
  case (Cons c cs')
  have "length (dropWhile is_digit cs') \<le> length cs'" by (rule length_dropWhile_le)
  with Cons show "lex_int cs = Some (ip, r) \<Longrightarrow> length r < length cs"
    by (auto simp: lex_int_def split: if_splits)
qed

lemma lex_frac_consumes: "lex_frac cs = Some (fp, r) \<Longrightarrow> length r \<le> length cs"
proof (cases cs)
  case Nil
  then show "lex_frac cs = Some (fp, r) \<Longrightarrow> length r \<le> length cs" by (simp add: lex_frac_def)
next
  case (Cons c cs')
  have "length (dropWhile is_digit cs') \<le> length cs'" by (rule length_dropWhile_le)
  with Cons show "lex_frac cs = Some (fp, r) \<Longrightarrow> length r \<le> length cs"
    by (auto simp: lex_frac_def split: if_splits)
qed

lemma lex_exp_sign_consumes: "lex_exp_sign cs = (b, r) \<Longrightarrow> length r \<le> length cs"
  by (cases cs) (auto simp: lex_exp_sign_def split: if_splits)

lemma lex_exp_consumes: "lex_exp cs = Some (ex, r) \<Longrightarrow> length r \<le> length cs"
proof (cases cs)
  case Nil
  then show "lex_exp cs = Some (ex, r) \<Longrightarrow> length r \<le> length cs" by (simp add: lex_exp_def)
next
  case (Cons c cs')
  obtain b r1 where s: "lex_exp_sign cs' = (b, r1)" by (cases "lex_exp_sign cs'")
  have "length (dropWhile is_digit r1) \<le> length r1" by (rule length_dropWhile_le)
  with lex_exp_sign_consumes [OF s] Cons s
  show "lex_exp cs = Some (ex, r) \<Longrightarrow> length r \<le> length cs"
    by (auto simp: lex_exp_def Let_def split: if_splits)
qed

lemma lex_sign_consumes: "lex_sign cs = (b, r) \<Longrightarrow> length r \<le> length cs"
  by (cases cs) (auto simp: lex_sign_def split: if_splits)

lemma parse_number_consumes:
  assumes "parse_number cs = Some (v, r)"
  shows "length r < length cs"
proof -
  obtain neg cs1 where 1: "lex_sign cs = (neg, cs1)" by (cases "lex_sign cs")
  with assms obtain ip cs2 where 2: "lex_int cs1 = Some (ip, cs2)"
    by (auto simp: parse_number_def split: option.splits)
  with 1 assms obtain fp cs3 where 3: "lex_frac cs2 = Some (fp, cs3)"
    by (auto simp: parse_number_def split: option.splits)
  with 1 2 assms obtain ex cs4 where 4: "lex_exp cs3 = Some (ex, cs4)"
    by (auto simp: parse_number_def split: option.splits)
  with 1 2 3 assms have "r = cs4"
    by (auto simp: parse_number_def Let_def split: prod.splits if_splits)
  with lex_sign_consumes [OF 1] lex_int_consumes [OF 2] lex_frac_consumes [OF 3]
    lex_exp_consumes [OF 4] show ?thesis by simp
qed


lemma parse_value_consumes:
  "parse_value cs = Some (v, r) \<Longrightarrow> length r < length cs"
  "parse_elements cs = Some (vs, r) \<Longrightarrow> length r < length cs"
  "parse_members cs = Some (ms, r) \<Longrightarrow> length r < length cs"
proof (induction cs and cs and cs arbitrary: v r and vs r and ms r
    rule: parse_value_parse_elements_parse_members.induct)
  case 1
  then show ?case by simp
next
  case (2 c rest)
  consider (obj) "c = LBRACE" | (arr) "c \<noteq> LBRACE" "c = LBRACKET"
    | (str) "c \<noteq> LBRACE" "c \<noteq> LBRACKET" "c = QUOTE"
    | (other) "c \<noteq> LBRACE" "c \<noteq> LBRACKET" "c \<noteq> QUOTE"
    by blast
  then show ?case
  proof cases
    case obj
    with "2.prems" obtain d r' where sk: "skip_ws rest = d # r'"
      by (cases "skip_ws rest") auto
    show ?thesis
    proof (cases "d = RBRACE")
      case True
      with obj sk "2.prems" skip_ws_Cons [OF sk] show ?thesis by simp
    next
      case False
      with obj sk "2.prems" obtain ms where "parse_members (d # r') = Some (ms, r)"
        by auto
      from "2.IH"(1) [OF obj sk False this] skip_ws_Cons [OF sk] show ?thesis by simp
    qed
  next
    case arr
    with "2.prems" obtain d r' where sk: "skip_ws rest = d # r'"
      by (cases "skip_ws rest") auto
    show ?thesis
    proof (cases "d = RBRACKET")
      case True
      with arr sk "2.prems" skip_ws_Cons [OF sk] show ?thesis by simp
    next
      case False
      with arr sk "2.prems" obtain xs where "parse_elements (d # r') = Some (xs, r)"
        by auto
      from "2.IH"(2) [OF arr(1) arr(2) sk False this] skip_ws_Cons [OF sk] show ?thesis by simp
    qed
  next
    case str
    with "2.prems" obtain s where "parse_string_body rest = Some (s, r)" by auto
    from parse_string_body_consumes [OF this] show ?thesis by simp
  next
    case other
    with "2.prems" parse_number_consumes [of "c # rest" v r] show ?thesis
      by (auto split: if_splits)
  qed
next
  case 3
  then show ?case by simp
next
  case (4 c rest)
  from "4.prems" obtain v r1 where pv: "parse_value (c # rest) = Some (v, r1)"
    by (auto split: option.splits)
  with "4.prems" obtain d r2 where sk: "skip_ws r1 = d # r2"
    by (cases "skip_ws r1") auto
  from "4.IH"(1) [OF pv] have l1: "length r1 < length (c # rest)" .
  show ?case
  proof (cases "d = RBRACKET")
    case True
    with pv sk "4.prems" skip_ws_Cons [OF sk] l1 show ?thesis by simp
  next
    case False
    with pv sk "4.prems" have c: "d = COMMA \<and> length r2 < length (c # rest)"
      by (auto split: if_splits)
    with False pv sk "4.prems" obtain vs' where pe: "parse_elements (skip_ws r2) = Some (vs', r)"
      by auto
    from "4.IH"(2) [OF pv refl sk False c pe] length_skip_ws [of r2] c show ?thesis by simp
  qed
next
  case 5
  then show ?case by simp
next
  case (6 c rest)
  from "6.prems" have q: "c = QUOTE" by (auto split: if_splits)
  with "6.prems" obtain k r1 where ps: "parse_string_body rest = Some (k, r1)"
    by (auto split: option.splits)
  with q "6.prems" obtain d r2 where sk: "skip_ws r1 = d # r2"
    by (cases "skip_ws r1") auto
  with q ps "6.prems" have c: "d = COLON \<and> length r2 < length rest"
    by (auto split: if_splits)
  with q ps sk "6.prems" obtain v r3 where pv: "parse_value (skip_ws r2) = Some (v, r3)"
    by (auto split: option.splits)
  with q ps sk c "6.prems" obtain x r4 where sk2: "skip_ws r3 = x # r4"
    by (cases "skip_ws r3") auto
  from "6.IH"(1) [OF q ps refl sk c pv] have l3: "length r3 < length (skip_ws r2)" .
  show ?case
  proof (cases "x = RBRACE")
    case True
    with q ps sk c pv sk2 "6.prems" have "r = r4" by simp
    with skip_ws_Cons [OF sk2] l3 length_skip_ws [of r2] c show ?thesis by simp
  next
    case False
    with q ps sk c pv sk2 "6.prems" have c2: "x = COMMA \<and> length r4 < length rest"
      by (auto split: if_splits)
    with False q ps sk c pv sk2 "6.prems" obtain ms' where
      pm: "parse_members (skip_ws r4) = Some (ms', r)"
      by auto
    from "6.IH"(2) [OF q ps refl sk c pv refl sk2 False c2 pm] length_skip_ws [of r4] c2
    show ?thesis by simp
  qed
qed


text \<open>So the parser satisfies the equations of the recursive descent without the comparisons.\<close>

lemma parse_elements_unguarded:
  "parse_elements (c # r) =
     (case parse_value (c # r) of
        None \<Rightarrow> None
      | Some (v, r1) \<Rightarrow>
         (case skip_ws r1 of
            [] \<Rightarrow> None
          | d # r2 \<Rightarrow>
              if d = RBRACKET then Some ([v], r2)
              else if d = COMMA then
                map_option (\<lambda>(vs, rest). (v # vs, rest)) (parse_elements (skip_ws r2))
              else None))"
proof (cases "parse_value (c # r)")
  case None
  then show ?thesis by simp
next
  case (Some a)
  obtain v r1 where a: "a = (v, r1)" by (cases a)
  show ?thesis
  proof (cases "skip_ws r1")
    case Nil
    with Some a show ?thesis by simp
  next
    case (Cons d r2)
    from parse_value_consumes(1) [of "c # r" v r1] Some a skip_ws_Cons [OF Cons]
    have "length r2 < length (c # r)" by simp
    with Some a Cons show ?thesis by simp
  qed
qed

lemma parse_members_unguarded:
  "parse_members (c # r) =
     (if c = QUOTE then
        (case parse_string_body r of
           None \<Rightarrow> None
         | Some (k, r1) \<Rightarrow>
            (case skip_ws r1 of
               [] \<Rightarrow> None
             | d # r2 \<Rightarrow>
                 if d = COLON then
                   (case parse_value (skip_ws r2) of
                      None \<Rightarrow> None
                    | Some (v, r3) \<Rightarrow>
                       (case skip_ws r3 of
                          [] \<Rightarrow> None
                        | x # r4 \<Rightarrow>
                            if x = RBRACE then Some ([(k, v)], r4)
                            else if x = COMMA then
                              map_option (\<lambda>(ms, rest). ((k, v) # ms, rest))
                                (parse_members (skip_ws r4))
                            else None))
                 else None))
      else None)"
proof (cases "c = QUOTE")
  case False
  then show ?thesis by simp
next
  case q: True
  show ?thesis
  proof (cases "parse_string_body r")
    case None
    with q show ?thesis by simp
  next
    case (Some a)
    obtain k r1 where a: "a = (k, r1)" by (cases a)
    from parse_string_body_consumes [of r k r1] Some a have l1: "length r1 < length r" by simp
    show ?thesis
    proof (cases "skip_ws r1")
      case Nil
      with q Some a show ?thesis by simp
    next
      case (Cons d r2)
      from skip_ws_Cons [OF Cons] l1 have l2: "length r2 < length r" by simp
      show ?thesis
      proof (cases "parse_value (skip_ws r2)")
        case None
        with q Some a Cons l2 show ?thesis by simp
      next
        case pv: (Some a')
        obtain v r3 where a': "a' = (v, r3)" by (cases a')
        from parse_value_consumes(1) [of "skip_ws r2" v r3] pv a' length_skip_ws [of r2] l2
        have l3: "length r3 < length r" by simp
        show ?thesis
        proof (cases "skip_ws r3")
          case Nil
          with q Some a Cons l2 pv a' show ?thesis by simp
        next
          case sk: (Cons x r4)
          from skip_ws_Cons [OF sk] l3 have "length r4 < length r" by simp
          with q Some a Cons l2 pv a' sk show ?thesis by simp
        qed
      qed
    qed
  qed
qed

subsection \<open>clampString\<close>




subsection \<open>Request validation\<close>




lemma validate_nonempty: "validateGenerateBody b = Some msg \<Longrightarrow> msg \<noteq> []"
  by (auto simp: validateGenerateBody_def js_def split: option.splits if_splits)

lemma validate_prose_nonempty: "validateGenerateBody_prose b = Some msg \<Longrightarrow> msg \<noteq> []"
  by (auto simp: validateGenerateBody_prose_def js_def split: option.splits if_splits)

lemma generate_400:
  "validateGenerateBody b = Some msg \<Longrightarrow> generate w sessions b = (error_response 400 msg, sessions, [])"
  using validate_nonempty [of b msg] by (simp add: generate_def)

lemma generate_relay_400:
  "validateGenerateBody_prose b = Some msg \<Longrightarrow> generate_relay w b = (error_response 400 msg, [])"
  using validate_prose_nonempty [of b msg] by (simp add: generate_relay_def)





subsection \<open>Recovery parsing\<close>

lemma indexOf_absent: "c \<notin> set s \<Longrightarrow> indexOf s c = - 1"
  by (induction s) auto

lemma indexOf_ge: "- 1 \<le> indexOf s c"
  by (induction s) (auto simp: Let_def)

lemma indexOf_first: "c \<notin> set pre \<Longrightarrow> indexOf (pre @ c # rest) c = int (length pre)"
  by (induction pre) (auto simp: Let_def)

lemma indexOf_found:
  "indexOf s c \<noteq> - 1 \<Longrightarrow>
     \<exists>pre rest. s = pre @ c # rest \<and> c \<notin> set pre \<and> indexOf s c = int (length pre)"
proof (induction s)
  case Nil
  then show ?case by simp
next
  case (Cons x xs)
  show ?case
  proof (cases "x = c")
    case True
    then have "x # xs = [] @ c # xs \<and> c \<notin> set [] \<and> indexOf (x # xs) c = int (length ([]::jsstring))"
      by simp
    then show ?thesis by blast
  next
    case False
    with Cons.prems have "indexOf xs c \<noteq> - 1" by (auto simp: Let_def split: if_splits)
    with Cons.IH obtain pre rest where
      *: "xs = pre @ c # rest" "c \<notin> set pre" "indexOf xs c = int (length pre)" by blast
    with False have "x # xs = (x # pre) @ c # rest \<and> c \<notin> set (x # pre)
        \<and> indexOf (x # xs) c = int (length (x # pre))"
      by (auto simp: Let_def)
    then show ?thesis by blast
  qed
qed

lemma lastIndexOf_last: "c \<notin> set post \<Longrightarrow> lastIndexOf (pre @ c # post) c = int (length pre)"
  using indexOf_first [of c "rev post" "rev pre"] by (simp add: lastIndexOf_def Let_def)

lemma lastIndexOf_found:
  assumes "lastIndexOf s c \<noteq> - 1"
  shows "\<exists>pre post. s = pre @ c # post \<and> c \<notin> set post \<and> lastIndexOf s c = int (length pre)"
proof -
  from assms have "indexOf (rev s) c \<noteq> - 1"
    by (auto simp: lastIndexOf_def Let_def split: if_splits)
  then obtain a b where *: "rev s = a @ c # b" "c \<notin> set a"
    using indexOf_found by blast
  then have "s = rev b @ c # rev a" 
    by (metis rev_append rev.simps(2) rev_rev_ident append.assoc append_Cons append_Nil)
  with * lastIndexOf_last [of c "rev a" "rev b"] show ?thesis
    by (metis set_rev)
qed

lemma slice_between:
  "slice (pre @ c # mid @ d # post) (length pre) (length pre + length mid + 2) = c # mid @ [d]"
  by (simp add: slice_def)

lemma tryParse_direct: "JSON_parse raw = Some v \<Longrightarrow> tryParseModelJson raw = Inr v"
  by (simp add: tryParseModelJson_def)

text \<open>The slice from the first opening brace to the last closing brace.\<close>

lemma tryParse_slice:
  assumes "JSON_parse raw = None" "raw = pre @ LBRACE # mid @ RBRACE # post"
    "LBRACE \<notin> set pre" "RBRACE \<notin> set post"
  shows "tryParseModelJson raw =
     (case JSON_parse (LBRACE # mid @ [RBRACE]) of Some v \<Rightarrow> Inr v | None \<Rightarrow> Inl SyntaxError)"
proof -
  have s: "indexOf raw LBRACE = int (length pre)"
    using assms(2,3) indexOf_first [of LBRACE pre "mid @ RBRACE # post"] by simp
  have "raw = (pre @ LBRACE # mid) @ RBRACE # post" using assms(2) by simp
  then have e: "lastIndexOf raw RBRACE = int (length pre + length mid + 1)"
    using assms(4) lastIndexOf_last [of RBRACE post "pre @ LBRACE # mid"] by simp
  have "nat (int (length pre + length mid + 1) + 1) = length pre + length mid + 2" by simp
  with s e assms(1) slice_between [of pre LBRACE mid RBRACE post] show ?thesis
    unfolding tryParseModelJson_def Let_def assms(2) by simp
qed

lemma tryParse_no_slice:
  assumes "JSON_parse raw = None" "\<not> (\<exists>pre mid post. raw = pre @ LBRACE # mid @ RBRACE # post)"
  shows "tryParseModelJson raw = Inl InvalidJSON"
proof -
  have "\<not> (indexOf raw LBRACE \<noteq> - 1 \<and> lastIndexOf raw RBRACE \<noteq> - 1
            \<and> lastIndexOf raw RBRACE > indexOf raw LBRACE)"
  proof
    assume a: "indexOf raw LBRACE \<noteq> - 1 \<and> lastIndexOf raw RBRACE \<noteq> - 1
            \<and> lastIndexOf raw RBRACE > indexOf raw LBRACE"
    then obtain p r where p: "raw = p @ LBRACE # r" "indexOf raw LBRACE = int (length p)"
      using indexOf_found by blast
    from a obtain q t where q: "raw = q @ RBRACE # t" "lastIndexOf raw RBRACE = int (length q)"
      using lastIndexOf_found by blast
    from a p q have lt: "length p < length q" by simp
    have "take (length q) raw = q" using q(1) by simp
    moreover have "take (length q) raw = p @ LBRACE # take (length q - length p - 1) r"
      using p(1) lt by (simp add: take_Cons')
    ultimately have "raw = p @ LBRACE # take (length q - length p - 1) r @ RBRACE # t"
      using q(1) by (metis append.assoc append_Cons)
    with assms(2) show False by blast
  qed
  with assms(1) show ?thesis by (auto simp: tryParseModelJson_def Let_def)
qed

lemma parse_Note: "JSON_parse (js ''Note: '' @ rest) = None"
  by (simp add: JSON_parse_def js_def skip_ws_def is_ws_def is_digit_def)

lemma parse_example: "JSON_parse example_json_text = Some example_json"
  by (simp add: JSON_parse_def example_json_text_def example_json_def js_def skip_ws_def is_ws_def
      cons_unit_def object_of_members_def is_array_index_def is_digit_def)

lemma tryParse_Note:
  assumes "RBRACE \<notin> set junk"
  shows "tryParseModelJson (js ''Note: '' @ example_json_text @ junk) = Inr example_json"
proof -
  define mid where \<open>mid = js ''"text":"A","choices":["a","b","c"]''\<close>
  have t: "example_json_text = LBRACE # mid @ [RBRACE]"
    by (simp add: example_json_text_def mid_def js_def)
  have "tryParseModelJson (js ''Note: '' @ LBRACE # mid @ RBRACE # junk) =
     (case JSON_parse (LBRACE # mid @ [RBRACE]) of Some v \<Rightarrow> Inr v | None \<Rightarrow> Inl SyntaxError)"
  proof (rule tryParse_slice [where pre = "js ''Note: ''" and post = junk])
    show "JSON_parse (js ''Note: '' @ LBRACE # mid @ RBRACE # junk) = None" by (rule parse_Note)
    show "LBRACE \<notin> set (js ''Note: '')" by (simp add: js_def)
    show "RBRACE \<notin> set junk" by (rule assms)
  qed simp
  with parse_example show ?thesis by (simp add: t)
qed

text \<open>
  C5 (as amended). The recovery parser returns what a direct \<open>JSON.parse\<close> of the raw
  output returns when that succeeds. When it fails, the parser takes the substring from the
  first opening brace to the last closing brace and returns what \<open>JSON.parse\<close> makes of it,
  raising that parser's SyntaxError when the slice does not parse; when no opening brace is
  followed by a closing one, it raises the error \<open>Invalid JSON\<close>. So the output
  \<open>Note: {"text":"A","choices":["a","b","c"]}\<close> followed by junk without a closing brace
  parses to the embedded object.
\<close>

theorem tryParseModelJson_spec:
  "(JSON_parse raw = Some v \<longrightarrow> tryParseModelJson raw = Inr v)
   \<and> (JSON_parse raw = None \<and> raw = pre @ LBRACE # mid @ RBRACE # post
        \<and> LBRACE \<notin> set pre \<and> RBRACE \<notin> set post \<longrightarrow>
        tryParseModelJson raw =
          (case JSON_parse (LBRACE # mid @ [RBRACE]) of
             Some v \<Rightarrow> Inr v | None \<Rightarrow> Inl SyntaxError))
   \<and> (JSON_parse raw = None \<and> \<not> (\<exists>pre mid post. raw = pre @ LBRACE # mid @ RBRACE # post) \<longrightarrow>
        tryParseModelJson raw = Inl InvalidJSON)
   \<and> (RBRACE \<notin> set junk \<longrightarrow>
        tryParseModelJson (js ''Note: '' @ example_json_text @ junk) = Inr example_json)"
  using tryParse_direct [of raw v] tryParse_slice [of raw pre mid post] tryParse_no_slice [of raw]
        tryParse_Note [of junk]
  by blast

theorem tryParseModelJson_spec_witness:
  "tryParseModelJson (js ''[true]'') = Inr (JArr [JBool True])
   \<and> tryParseModelJson (js ''x{y}z'') = Inl SyntaxError
   \<and> tryParseModelJson (js ''abc'') = Inl InvalidJSON
   \<and> tryParseModelJson (js ''Note: '' @ example_json_text @ js '' thanks'') = Inr example_json"
proof -
  have 1: "JSON_parse (js ''[true]'') = Some (JArr [JBool True])"
    by (simp add: JSON_parse_def js_def skip_ws_def is_ws_def)
  have 2: "JSON_parse (js ''x{y}z'') = None" "JSON_parse (js ''{y}'') = None"
    "JSON_parse (js ''abc'') = None"
    by (simp_all add: JSON_parse_def js_def skip_ws_def is_ws_def is_digit_def)
  have 3: "\<not> (\<exists>pre mid post. js ''abc'' = pre @ LBRACE # mid @ RBRACE # post)"
  proof
    assume "\<exists>pre mid post. js ''abc'' = pre @ LBRACE # mid @ RBRACE # post"
    then obtain pre mid post where "js ''abc'' = pre @ LBRACE # mid @ RBRACE # post" by blast
    then have "LBRACE \<in> set (js ''abc'')" by simp
    then show False by (simp add: js_def)
  qed
  have 4: "js ''x{y}z'' = js ''x'' @ LBRACE # js ''y'' @ RBRACE # js ''z''"
    "js ''{y}'' = LBRACE # js ''y'' @ [RBRACE]"
    "LBRACE \<notin> set (js ''x'')" "RBRACE \<notin> set (js ''z'')" "RBRACE \<notin> set (js '' thanks'')"
    by (simp_all add: js_def)
  show ?thesis
    using tryParseModelJson_spec [of "js ''[true]''" "JArr [JBool True]" "[]" "[]" "[]" "js '' thanks''"]
          tryParseModelJson_spec [of "js ''x{y}z''" JNull "js ''x''" "js ''y''" "js ''z''" "[]"]
          tryParseModelJson_spec [of "js ''abc''" JNull "[]" "[]" "[]" "[]"]
          1 2 3 4
    by simp
qed

text \<open>
  C5 as stated fails when the trailing junk holds a closing brace: the slice then runs past
  the object, and the second \<open>JSON.parse\<close> throws.
\<close>

theorem tryParseModelJson_junk_counterexample:
  "tryParseModelJson (js ''Note: '' @ example_json_text @ js '' ok}'') = Inl SyntaxError"
  by (simp add: tryParseModelJson_def JSON_parse_def example_json_text_def js_def skip_ws_def
      is_ws_def is_digit_def cons_unit_def object_of_members_def is_array_index_def
      lastIndexOf_def slice_def)

subsection \<open>The global size guard\<close>

lemma length_unicode_escape: "length (unicode_escape c) = 6"
  by (simp add: unicode_escape_def Let_def)

lemma length_escape_unit: "1 \<le> length (escape_unit c)"
  by (simp add: escape_unit_def length_unicode_escape)

lemma length_quote_units: "length s \<le> length (quote_units s)"
proof (induction s rule: quote_units.induct)
  case 1
  show ?case by simp
next
  case (2 c)
  show ?case using length_escape_unit [of c] by (simp add: length_unicode_escape)
next
  case (3 c d cs)
  then show ?case using length_escape_unit [of c]
    by (cases "is_high_surrogate c") (auto simp: length_unicode_escape)
qed

lemma length_quote_json: "length s + 2 \<le> length (quote_json s)"
  using length_quote_units [of s] by (simp add: quote_json_def)

lemma oversized_body_length: "MAX_INPUT_CHARS < length (JSON_stringify (JObj oversized_body))"
  using length_quote_json [of "replicate 12000 (0x61::16 word)"]
  by (simp add: oversized_body_def MAX_INPUT_CHARS_def)

lemma oversized_incomplete_body_length:
  "MAX_INPUT_CHARS < length (JSON_stringify (JObj oversized_incomplete_body))"
  using length_quote_json [of "replicate 12000 (0x61::16 word)"]
  by (simp add: oversized_incomplete_body_def MAX_INPUT_CHARS_def)

lemma generate_413:
  "validateGenerateBody b = None \<Longrightarrow> MAX_INPUT_CHARS < length (JSON_stringify (JObj b))
   \<Longrightarrow> generate w sessions b = (too_large, sessions, [])"
  by (simp add: generate_def)

lemma generate_relay_413:
  "validateGenerateBody_prose b = None \<Longrightarrow> MAX_INPUT_CHARS < length (JSON_stringify (JObj b))
   \<Longrightarrow> generate_relay w b = (too_large, [])"
  by (simp add: generate_relay_def)

text \<open>
  C2 (as amended). In the two variants that implement the guard, a request that passes the
  validator and whose serialized body is longer than 12000 characters is answered with
  status 413 and the error \<open>Input too large\<close>, whatever its fields hold (also when clamping
  a field would throw): the guard stands before every \<open>clampString\<close>, the session store is
  not touched and the API is not called.
\<close>

theorem input_too_large_spec:
  "(validateGenerateBody b = None \<and> MAX_INPUT_CHARS < length (JSON_stringify (JObj b)) \<longrightarrow>
      generate w sessions b = (too_large, sessions, []))
   \<and> (validateGenerateBody_prose b = None \<and> MAX_INPUT_CHARS < length (JSON_stringify (JObj b)) \<longrightarrow>
      generate_relay w b = (too_large, []))
   \<and> MAX_INPUT_CHARS = 12000
   \<and> too_large =
       \<lparr>status = 413,
        body = JObj [(js ''error'',
                      JStr (js ''Input too large. Reduce world_summary/event_card/recent_memory.''))]\<rparr>"
  using generate_413 [of b w sessions] generate_relay_413 [of b w]
  by (simp add: MAX_INPUT_CHARS_def too_large_def error_response_def)

theorem input_too_large_spec_witness:
  "validateGenerateBody oversized_body = None
   \<and> validateGenerateBody_prose oversized_body = None
   \<and> MAX_INPUT_CHARS < length (JSON_stringify (JObj oversized_body))
   \<and> generate example_world Map.empty oversized_body = (too_large, Map.empty, [])
   \<and> generate_relay example_world oversized_body = (too_large, [])"
proof -
  have v: "validateGenerateBody oversized_body = None" "validateGenerateBody_prose oversized_body = None"
    by (simp_all add: validateGenerateBody_def validateGenerateBody_prose_def required_def
        oversized_body_def js_def)
  show ?thesis
    using input_too_large_spec [of oversized_body example_world Map.empty] v oversized_body_length
    by simp
qed

text \<open>
  C2 as stated fails for a request that is not valid at the level of its fields: the
  validator runs first, so an oversized body without \<open>scene_type\<close> is answered with 400.
\<close>

theorem input_too_large_invalid_counterexample:
  "MAX_INPUT_CHARS < length (JSON_stringify (JObj oversized_incomplete_body))
   \<and> generate example_world Map.empty oversized_incomplete_body
       = (error_response 400 (js ''Missing field: scene_type''), Map.empty, [])
   \<and> generate_relay example_world oversized_incomplete_body
       = (error_response 400 (js ''Missing field: scene_type''), [])
   \<and> status (error_response 400 (js ''Missing field: scene_type'')) \<noteq> 413"
proof -
  have v: "validateGenerateBody oversized_incomplete_body = Some (js ''Missing field: scene_type'')"
    "validateGenerateBody_prose oversized_incomplete_body = Some (js ''Missing field: scene_type'')"
    by (simp_all add: validateGenerateBody_def validateGenerateBody_prose_def required_def
        oversized_incomplete_body_def js_def)
  show ?thesis
    using v generate_400 [of oversized_incomplete_body _ example_world Map.empty]
      generate_relay_400 [of oversized_incomplete_body _ example_world]
      oversized_incomplete_body_length
    by (simp add: error_response_def)
qed

subsection \<open>The outcomes of the structured handler\<close>

lemma clampString_string [simp]: "clampString (Some (JStr t)) mx = Inr (take mx t)"
  by (simp add: clampString_def)

lemma generate_cases [consumes 1, case_names invalid too_large setup_failed api_failed not_json bad_shape summary_failed success]:
  assumes "generate w ss b = (r, ss', calls)"
  obtains
    (invalid) msg where "validateGenerateBody b = Some msg" "r = error_response 400 msg"
      "ss' = ss" "calls = []"
  | (too_large) "validateGenerateBody b = None"
      "MAX_INPUT_CHARS < length (JSON_stringify (JObj b))" "r = too_large"
      "ss' = ss" "calls = []"
  | (setup_failed) "r = server_error" "ss' = snd (getSession ss (session_id_of b))" "calls = []"
  | (api_failed) bible p request e where
      "bible_file w = Inr bible" "make_payload b = Inr p"
      "request = completion_request
         (build_prompt bible (statsLine (session_stats (fst (getSession ss (session_id_of b))))) p
            (take 4000 (session_memory ss (session_id_of b))))"
      "api w request = ApiThrows e" "r = server_error"
      "ss' = snd (getSession ss (session_id_of b))" "calls = [request]"
  | (not_json) bible p request content usage e where
      "bible_file w = Inr bible" "make_payload b = Inr p"
      "request = completion_request
         (build_prompt bible (statsLine (session_stats (fst (getSession ss (session_id_of b))))) p
            (take 4000 (session_memory ss (session_id_of b))))"
      "api w request = ApiReturns content usage"
      "tryParseModelJson (case content of None \<Rightarrow> [] | Some c \<Rightarrow> c) = Inl e"
      "r = not_json_response (case content of None \<Rightarrow> [] | Some c \<Rightarrow> c)"
      "ss' = snd (getSession ss (session_id_of b))" "calls = [request]"
  | (bad_shape) bible p request content usage parsed where
      "bible_file w = Inr bible" "make_payload b = Inr p"
      "request = completion_request
         (build_prompt bible (statsLine (session_stats (fst (getSession ss (session_id_of b))))) p
            (take 4000 (session_memory ss (session_id_of b))))"
      "api w request = ApiReturns content usage"
      "tryParseModelJson (case content of None \<Rightarrow> [] | Some c \<Rightarrow> c) = Inr parsed"
      "\<not> truthy (get_prop parsed (js ''text''))
       \<or> \<not> (\<exists>xs. get_prop parsed (js ''choices'') = Some (JArr xs) \<and> length xs = 3)"
      "r = bad_shape_response parsed (case content of None \<Rightarrow> [] | Some c \<Rightarrow> c)"
      "ss' = snd (getSession ss (session_id_of b))" "calls = [request]"
  | (summary_failed) bible p request content usage parsed tv xs e where
      "bible_file w = Inr bible" "make_payload b = Inr p"
      "request = completion_request
         (build_prompt bible (statsLine (session_stats (fst (getSession ss (session_id_of b))))) p
            (take 4000 (session_memory ss (session_id_of b))))"
      "api w request = ApiReturns content usage"
      "tryParseModelJson (case content of None \<Rightarrow> [] | Some c \<Rightarrow> c) = Inr parsed"
      "get_prop parsed (js ''text'') = Some tv" "truthy (Some tv)"
      "get_prop parsed (js ''choices'') = Some (JArr xs)" "length xs = 3"
      "turnBlock p (Some tv) xs = Inl e"
      "r = server_error" "ss' = snd (getSession ss (session_id_of b))" "calls = [request]"
  | (success) bible p request content usage parsed tv xs block where
      "bible_file w = Inr bible" "make_payload b = Inr p"
      "request = completion_request
         (build_prompt bible (statsLine (session_stats (fst (getSession ss (session_id_of b))))) p
            (take 4000 (session_memory ss (session_id_of b))))"
      "api w request = ApiReturns content usage"
      "tryParseModelJson (case content of None \<Rightarrow> [] | Some c \<Rightarrow> c) = Inr parsed"
      "get_prop parsed (js ''text'') = Some tv" "truthy (Some tv)"
      "get_prop parsed (js ''choices'') = Some (JArr xs)" "length xs = 3"
      "turnBlock p (Some tv) xs = Inr block"
      "r = success_response (session_id_of b) tv xs
             (session_stats (fst (getSession ss (session_id_of b))))"
      "ss' = put_session (snd (getSession ss (session_id_of b))) (session_id_of b)
               ((fst (getSession ss (session_id_of b)))
                  \<lparr>recent_memory := take 4000 (append_turn (session_memory ss (session_id_of b)) block)\<rparr>)"
      "calls = [request]"
proof -
  obtain s sessions1 where g: "getSession ss (session_id_of b) = (s, sessions1)"
    by (cases "getSession ss (session_id_of b)")
  then have gs: "fst (getSession ss (session_id_of b)) = s"
    "snd (getSession ss (session_id_of b)) = sessions1"
    "session_memory ss (session_id_of b) = recent_memory s"
    by (simp_all add: session_memory_def)
  show thesis
  proof (cases "validateGenerateBody b")
    case (Some msg)
    then have "msg \<noteq> []" by (rule validate_nonempty)
    with Some have "generate w ss b = (error_response 400 msg, ss, [])"
      by (simp add: generate_def)
    with assms have "r = error_response 400 msg" "ss' = ss" "calls = []" by simp_all
    with Some show thesis by (rule invalid)
  next
    case None
    note v = None
    show thesis
    proof (cases "MAX_INPUT_CHARS < length (JSON_stringify (JObj b))")
      case True
      with v have "generate w ss b = (too_large, ss, [])" by (simp add: generate_def)
      with assms have "r = too_large" "ss' = ss" "calls = []" by simp_all
      with v True show thesis by (rule too_large)
    next
      case False
      note small = False
      show thesis
      proof (cases "bible_file w")
        case (Inl e)
        with v small g have "generate w ss b = (server_error, sessions1, [])"
          by (simp add: generate_def Let_def)
        with assms gs have "r = server_error" "ss' = snd (getSession ss (session_id_of b))"
          "calls = []" by simp_all
        then show thesis by (rule setup_failed)
      next
        case (Inr bible)
        note bi = Inr
        show thesis
        proof (cases "make_payload b")
          case (Inl e)
          with v small g bi have "generate w ss b = (server_error, sessions1, [])"
            by (simp add: generate_def Let_def)
          with assms gs have "r = server_error" "ss' = snd (getSession ss (session_id_of b))"
            "calls = []" by simp_all
          then show thesis by (rule setup_failed)
        next
          case (Inr p)
          note pl = Inr
          define request where "request = completion_request
             (build_prompt bible (statsLine (session_stats s)) p (take 4000 (recent_memory s)))"
          have rq: "request = completion_request
             (build_prompt bible (statsLine (session_stats (fst (getSession ss (session_id_of b))))) p
                (take 4000 (session_memory ss (session_id_of b))))"
            by (simp add: request_def gs)
          show thesis
          proof (cases "api w request")
            case (ApiThrows e)
            with v small g bi pl have "generate w ss b = (server_error, sessions1, [request])"
              by (simp add: generate_def Let_def request_def)
            with assms gs have "r = server_error" "ss' = snd (getSession ss (session_id_of b))"
              "calls = [request]" by simp_all
            with bi pl rq ApiThrows show thesis by (rule api_failed)
          next
            case (ApiReturns content usage)
            note ar = ApiReturns
            define raw where "raw = (case content of None \<Rightarrow> [] | Some c \<Rightarrow> c)"
            show thesis
            proof (cases "tryParseModelJson raw")
              case (Inl e)
              with v small g bi pl ar
              have "generate w ss b = (not_json_response raw, sessions1, [request])"
                by (simp add: generate_def Let_def request_def raw_def)
              with assms gs have "r = not_json_response raw"
                "ss' = snd (getSession ss (session_id_of b))" "calls = [request]" by simp_all
              with bi pl rq ar Inl show thesis unfolding raw_def by (rule not_json)
            next
              case (Inr parsed)
              note pa = Inr
              show thesis
              proof (cases "bad_json_shape parsed")
                case True
                then have sh: "\<not> truthy (get_prop parsed (js ''text''))
                  \<or> \<not> (\<exists>xs. get_prop parsed (js ''choices'') = Some (JArr xs) \<and> length xs = 3)"
                  by (auto simp: bad_json_shape_def Array_isArray_def array_items_def)
                from True v small g bi pl ar pa
                have "generate w ss b = (bad_shape_response parsed raw, sessions1, [request])"
                  by (simp add: generate_def Let_def request_def raw_def)
                with assms gs have "r = bad_shape_response parsed raw"
                  "ss' = snd (getSession ss (session_id_of b))" "calls = [request]" by simp_all
                with bi pl rq ar pa sh show thesis unfolding raw_def by (rule bad_shape)
              next
                case False
                then obtain tv xs where
                  tx: "get_prop parsed (js ''text'') = Some tv" "truthy (Some tv)"
                      "get_prop parsed (js ''choices'') = Some (JArr xs)" "length xs = 3"
                  by (cases "get_prop parsed (js ''text'')")
                     (auto simp: bad_json_shape_def Array_isArray_def array_items_def
                        split: option.splits json.splits)
                then have ai: "array_items (get_prop parsed (js ''choices'')) = xs"
                  by (simp add: array_items_def)
                show thesis
                proof (cases "turnBlock p (Some tv) xs")
                  case (Inl e)
                  with False tx(1) ai v small g bi pl ar pa
                  have "generate w ss b = (server_error, sessions1, [request])"
                    by (simp add: generate_def Let_def request_def raw_def)
                  with assms gs have "r = server_error"
                    "ss' = snd (getSession ss (session_id_of b))" "calls = [request]" by simp_all
                  with bi pl rq ar pa tx Inl show thesis unfolding raw_def by (rule summary_failed)
                next
                  case (Inr block)
                  with False tx(1) ai v small g bi pl ar pa
                  have "generate w ss b =
                      (success_response (session_id_of b) tv xs (session_stats s),
                       put_session sessions1 (session_id_of b)
                         (s\<lparr>recent_memory := take 4000 (append_turn (recent_memory s) block)\<rparr>),
                       [request])"
                    by (simp add: generate_def Let_def request_def raw_def)
                  with assms gs have
                    "r = success_response (session_id_of b) tv xs
                           (session_stats (fst (getSession ss (session_id_of b))))"
                    "ss' = put_session (snd (getSession ss (session_id_of b))) (session_id_of b)
                             ((fst (getSession ss (session_id_of b)))
                                \<lparr>recent_memory :=
                                   take 4000 (append_turn (session_memory ss (session_id_of b)) block)\<rparr>)"
                    "calls = [request]" by simp_all
                  with bi pl rq ar pa tx Inr show thesis unfolding raw_def by (rule success)
                qed
              qed
            qed
          qed
        qed
      qed
    qed
  qed
qed

subsection \<open>The shape of the model output\<close>

lemma getSession_memory:
  "session_memory (snd (getSession ss sid)) sid' = session_memory ss sid'"
  by (auto simp: session_memory_def getSession_def new_session_def split: option.splits)

text \<open>
  C1. In the structured-JSON variant, when the handler has called the API, the output the
  model returned was parsed, and the parsed value has no truthy \<open>text\<close> or its \<open>choices\<close> is
  not an array of exactly three elements, the response is 500 with the error
  \<open>Bad JSON shape from model\<close> and every session reads the same memory as before the request.
  Conversely, the \<open>choices\<close> of every 200 response is an array of exactly three elements.
\<close>

theorem bad_shape_spec:
  "(generate w ss b = (r, ss', [request]) \<and> api w request = ApiReturns content usage
      \<and> tryParseModelJson (case content of None \<Rightarrow> [] | Some c \<Rightarrow> c) = Inr parsed
      \<and> (\<not> truthy (get_prop parsed (js ''text''))
          \<or> \<not> (\<exists>xs. get_prop parsed (js ''choices'') = Some (JArr xs) \<and> length xs = 3))
     \<longrightarrow> status r = 500
         \<and> get_prop (body r) (js ''error'') = Some (JStr (js ''Bad JSON shape from model''))
         \<and> (\<forall>sid. session_memory ss' sid = session_memory ss sid))
   \<and> (generate w ss b = (r, ss', calls) \<and> status r = 200
     \<longrightarrow> (\<exists>xs. get_prop (body r) (js ''choices'') = Some (JArr xs) \<and> length xs = 3))"
proof (intro conjI impI)
  assume a: "generate w ss b = (r, ss', [request]) \<and> api w request = ApiReturns content usage
      \<and> tryParseModelJson (case content of None \<Rightarrow> [] | Some c \<Rightarrow> c) = Inr parsed
      \<and> (\<not> truthy (get_prop parsed (js ''text''))
          \<or> \<not> (\<exists>xs. get_prop parsed (js ''choices'') = Some (JArr xs) \<and> length xs = 3))"
  then have g: "generate w ss b = (r, ss', [request])" by simp
  from g have "r = bad_shape_response parsed (case content of None \<Rightarrow> [] | Some c \<Rightarrow> c)
      \<and> ss' = snd (getSession ss (session_id_of b))"
  proof (cases rule: generate_cases)
    case (bad_shape bible p request' content' usage' parsed')
    with a show ?thesis by auto
  qed (use a in auto)
  then show "status r = 500"
    and "get_prop (body r) (js ''error'') = Some (JStr (js ''Bad JSON shape from model''))"
    and "\<forall>sid. session_memory ss' sid = session_memory ss sid"
    by (simp_all add: bad_shape_response_def getSession_memory)
next
  assume a: "generate w ss b = (r, ss', calls) \<and> status r = 200"
  then have g: "generate w ss b = (r, ss', calls)" by simp
  from g show "\<exists>xs. get_prop (body r) (js ''choices'') = Some (JArr xs) \<and> length xs = 3"
  proof (cases rule: generate_cases)
    case (success bible p request content usage parsed tv xs block)
    then show ?thesis by (simp add: success_response_def js_def)
  qed (use a in \<open>auto simp: error_response_def too_large_def server_error_def
          not_json_response_def bad_shape_response_def\<close>)
qed


lemma example_body_valid: "validateGenerateBody example_body = None"
  by (simp add: validateGenerateBody_def required_def example_body_def js_def)

lemma example_body_small: "\<not> MAX_INPUT_CHARS < length (JSON_stringify (JObj example_body))"
  by (simp add: example_body_def MAX_INPUT_CHARS_def quote_json_def js_def escape_unit_def
      is_high_surrogate_def is_low_surrogate_def)

lemma example_body_session: "session_id_of example_body = JStr (js ''demo'')"
  by (simp add: session_id_of_def example_body_def js_def)

lemma example_body_payload: "make_payload example_body = Inr example_payload"
  by (simp add: make_payload_def bind_thrown_def example_body_def example_payload_def js_def)

lemma two_choices_generate:
  "generate two_choices_world ss example_body =
     (bad_shape_response two_choices_json two_choices_text,
      snd (getSession ss (JStr (js ''demo''))),
      [completion_request
         (build_prompt (js ''LORE'') (statsLine (session_stats (fst (getSession ss (JStr (js ''demo''))))))
            example_payload (take 4000 (recent_memory (fst (getSession ss (JStr (js ''demo'')))))))])"
proof -
  have p: "tryParseModelJson two_choices_text = Inr two_choices_json"
    by (simp add: tryParseModelJson_def JSON_parse_def js_def skip_ws_def is_ws_def
      two_choices_text_def two_choices_json_def
      cons_unit_def object_of_members_def is_array_index_def is_digit_def)
  have sh: "bad_json_shape two_choices_json"
    by (simp add: bad_json_shape_def array_items_def js_def two_choices_json_def)
  show ?thesis
    using example_body_valid example_body_small p sh
    by (simp add: generate_def Let_def example_body_session example_body_payload
        two_choices_world_def example_world_def split: prod.splits)
qed


lemma example_generate:
  "generate example_world ss example_body =
     (success_response (JStr (js ''demo'')) (JStr (js ''A''))
        [JStr (js ''a''), JStr (js ''b''), JStr (js ''c'')]
        (session_stats (fst (getSession ss (JStr (js ''demo''))))),
      put_session (snd (getSession ss (JStr (js ''demo'')))) (JStr (js ''demo''))
        ((fst (getSession ss (JStr (js ''demo''))))
           \<lparr>recent_memory :=
              take 4000 (append_turn (recent_memory (fst (getSession ss (JStr (js ''demo''))))) example_block)\<rparr>),
      [completion_request
         (build_prompt (js ''LORE'') (statsLine (session_stats (fst (getSession ss (JStr (js ''demo''))))))
            example_payload (take 4000 (recent_memory (fst (getSession ss (JStr (js ''demo'')))))))])"
proof -
  have p: "tryParseModelJson (js ''Note: '' @ example_json_text @ js '' thanks'') = Inr example_json"
    by (rule tryParse_Note) (simp add: js_def)
  have n: \<open>js ''Note: {"text":"A","choices":["a","b","c"]} thanks''
             = js ''Note: '' @ example_json_text @ js '' thanks''\<close>
    by (simp add: js_def example_json_text_def)
  have sh: "get_prop example_json (js ''text'') = Some (JStr (js ''A''))"
    "get_prop example_json (js ''choices'') = Some (JArr [JStr (js ''a''), JStr (js ''b''), JStr (js ''c'')])"
    by (simp_all add: js_def example_json_def)
  have tb: "turnBlock example_payload (Some (JStr (js ''A''))) [JStr (js ''a''), JStr (js ''b''), JStr (js ''c'')]
             = Inr example_block"
    by (simp add: turnBlock_def template_def array_join_def bind_thrown_def example_payload_def
        example_block_def js_def)
  have ne: "js ''A'' \<noteq> []" by (simp add: js_def)
  show ?thesis
    using example_body_valid example_body_small p sh tb ne
    by (simp add: generate_def Let_def example_body_session example_body_payload
        example_world_def n bad_json_shape_def Array_isArray_def array_items_def split: prod.splits)
qed

text \<open>The literal \<open>1e-400\<close> of a model output is read as zero.\<close>

lemma parse_tiny_text: "JSON_parse tiny_text_text = Some tiny_text_json"
  by (simp add: JSON_parse_def tiny_text_text_def tiny_text_json_def js_def skip_ws_def is_ws_def
      cons_unit_def object_of_members_def is_array_index_def is_digit_def
      parse_number_def lex_sign_def lex_int_def lex_frac_def lex_exp_def lex_exp_sign_def
      digits_value_def number_of_decimal_underflow)

lemma tiny_text_generate:
  "generate tiny_text_world ss example_body =
     (bad_shape_response tiny_text_json tiny_text_text,
      snd (getSession ss (JStr (js ''demo''))),
      [completion_request
         (build_prompt (js ''LORE'') (statsLine (session_stats (fst (getSession ss (JStr (js ''demo''))))))
            example_payload (take 4000 (recent_memory (fst (getSession ss (JStr (js ''demo'')))))))])"
proof -
  have p: "tryParseModelJson tiny_text_text = Inr tiny_text_json"
    by (simp add: tryParseModelJson_def parse_tiny_text)
  have sh: "bad_json_shape tiny_text_json"
    by (simp add: bad_json_shape_def js_def tiny_text_json_def is_zero_def)
  show ?thesis
    using example_body_valid example_body_small p sh
    by (simp add: generate_def Let_def example_body_session example_body_payload
        tiny_text_world_def example_world_def split: prod.splits)
qed

theorem bad_shape_spec_witness:
  "status (fst (generate two_choices_world Map.empty example_body)) = 500
   \<and> get_prop (body (fst (generate two_choices_world Map.empty example_body))) (js ''error'')
       = Some (JStr (js ''Bad JSON shape from model''))
   \<and> session_memory (fst (snd (generate two_choices_world Map.empty example_body))) (JStr (js ''demo''))
       = session_memory Map.empty (JStr (js ''demo''))
   \<and> tryParseModelJson tiny_text_text
       = Inr (JObj [(js ''text'', JNum (Finite False 0 0)),
                    (js ''choices'', JArr [JStr (js ''a''), JStr (js ''b''), JStr (js ''c'')])])
   \<and> status (fst (generate tiny_text_world Map.empty example_body)) = 500
   \<and> get_prop (body (fst (generate tiny_text_world Map.empty example_body))) (js ''error'')
       = Some (JStr (js ''Bad JSON shape from model''))
   \<and> fst (snd (generate tiny_text_world Map.empty example_body)) (JStr (js ''demo''))
       = Some \<lparr>recent_memory = [],
               session_stats = \<lparr>health = 10, reputation = 0, money = 0\<rparr>\<rparr>
   \<and> status (fst (generate example_world Map.empty example_body)) = 200
   \<and> get_prop (body (fst (generate example_world Map.empty example_body))) (js ''choices'')
       = Some (JArr [JStr (js ''a''), JStr (js ''b''), JStr (js ''c'')])"
proof -
  have tt: "tryParseModelJson tiny_text_text = Inr tiny_text_json"
    by (simp add: tryParseModelJson_def parse_tiny_text)
  have tc: "\<not> truthy (get_prop tiny_text_json (js ''text''))"
    by (simp add: tiny_text_json_def js_def is_zero_def)
  have ta: "api tiny_text_world q = ApiReturns (Some tiny_text_text) None" for q
    by (simp add: tiny_text_world_def)
  have t: "tryParseModelJson two_choices_text = Inr two_choices_json"
    by (simp add: tryParseModelJson_def JSON_parse_def js_def skip_ws_def is_ws_def
      two_choices_text_def two_choices_json_def
      cons_unit_def object_of_members_def is_array_index_def is_digit_def)
  have c: "\<not> (\<exists>xs. get_prop two_choices_json (js ''choices'') = Some (JArr xs) \<and> length xs = 3)"
    by (simp add: two_choices_json_def js_def)
  have a: "api two_choices_world q = ApiReturns (Some two_choices_text) None" for q
    by (simp add: two_choices_world_def)
  show ?thesis
    using bad_shape_spec
      [of two_choices_world Map.empty example_body
          "fst (generate two_choices_world Map.empty example_body)"
          "fst (snd (generate two_choices_world Map.empty example_body))"
          "hd (snd (snd (generate two_choices_world Map.empty example_body)))"
          "Some two_choices_text" None two_choices_json "[]"]
      bad_shape_spec
      [of example_world Map.empty example_body
          "fst (generate example_world Map.empty example_body)"
          "fst (snd (generate example_world Map.empty example_body))"
          "hd (snd (snd (generate example_world Map.empty example_body)))"
          None None JNull
          "snd (snd (generate example_world Map.empty example_body))"]
      bad_shape_spec
      [of tiny_text_world Map.empty example_body
          "fst (generate tiny_text_world Map.empty example_body)"
          "fst (snd (generate tiny_text_world Map.empty example_body))"
          "hd (snd (snd (generate tiny_text_world Map.empty example_body)))"
          "Some tiny_text_text" None tiny_text_json "[]"]
      t c a tt tc ta
    by (simp add: two_choices_generate example_generate tiny_text_generate success_response_def
        js_def getSession_def new_session_def default_stats_def)
       (simp add: tiny_text_json_def js_def)
qed

subsection \<open>Session stats\<close>

lemma getSession_fst:
  "fst (getSession ss sid) =
     (case map_key sid of None \<Rightarrow> new_session
      | Some k \<Rightarrow> (case ss k of None \<Rightarrow> new_session | Some s \<Rightarrow> s))"
  by (simp add: getSession_def split: option.splits)

lemma getSession_snd:
  "snd (getSession ss sid) =
     (case map_key sid of None \<Rightarrow> ss
      | Some k \<Rightarrow> (case ss k of None \<Rightarrow> ss(k \<mapsto> new_session) | Some s \<Rightarrow> ss))"
  by (simp add: getSession_def split: option.splits)

lemma getSession_keeps: "ss k = Some s \<Longrightarrow> snd (getSession ss sid) k = Some s"
  by (auto simp: getSession_snd split: option.splits)

lemma getSession_default:
  assumes "\<forall>k s. ss k = Some s \<longrightarrow> session_stats s = default_stats"
  shows "session_stats (fst (getSession ss sid)) = default_stats"
    and "\<forall>k s. snd (getSession ss sid) k = Some s \<longrightarrow> session_stats s = default_stats"
  using assms
  by (auto simp: getSession_fst getSession_snd new_session_def split: option.splits if_splits)

lemma put_session_default:
  assumes "\<forall>k s. ss k = Some s \<longrightarrow> session_stats s = default_stats"
    "session_stats s' = default_stats"
  shows "\<forall>k s. put_session ss sid s' k = Some s \<longrightarrow> session_stats s = default_stats"
  using assms by (auto simp: put_session_def split: option.splits if_splits)

text \<open>One request keeps the stats of every session and answers with the defaults.\<close>

lemma generate_stats:
  assumes "generate w ss b = (r, ss', calls)"
    "\<forall>k s. ss k = Some s \<longrightarrow> session_stats s = default_stats"
  shows "\<forall>k s. ss' k = Some s \<longrightarrow> session_stats s = default_stats"
    and "status r = 200 \<longrightarrow> get_prop (body r) (js ''stats'') = Some (stats_json default_stats)"
proof -
  note d = getSession_default [OF assms(2), of "session_id_of b"]
  from assms(1) have
    "(\<forall>k s. ss' k = Some s \<longrightarrow> session_stats s = default_stats)
     \<and> (status r = 200 \<longrightarrow> get_prop (body r) (js ''stats'') = Some (stats_json default_stats))"
  proof (cases rule: generate_cases)
    case (success bible p request content usage parsed tv xs block)
    have "\<forall>k s. ss' k = Some s \<longrightarrow> session_stats s = default_stats"
      unfolding success(12) by (rule put_session_default) (use d in simp_all)
    moreover have "get_prop (body r) (js ''stats'') = Some (stats_json default_stats)"
      unfolding success(11) using d(1) by (simp add: success_response_def js_def)
    ultimately show ?thesis by simp
  qed (use assms(2) d in \<open>simp_all add: error_response_def too_large_def server_error_def
          not_json_response_def bad_shape_response_def\<close>)
  then show "\<forall>k s. ss' k = Some s \<longrightarrow> session_stats s = default_stats"
    and "status r = 200 \<longrightarrow> get_prop (body r) (js ''stats'') = Some (stats_json default_stats)"
    by simp_all
qed

text \<open>One request changes nothing but the memory of a session that exists.\<close>

lemma generate_frame:
  assumes "generate w ss b = (r, ss', calls)" "ss k = Some s"
  shows "\<exists>m. ss' k = Some (s\<lparr>recent_memory := m\<rparr>)"
proof -
  have same: "\<exists>m. Some s = Some (s\<lparr>recent_memory := m\<rparr>)"
    by (rule exI [of _ "recent_memory s"]) simp
  have g: "snd (getSession ss (session_id_of b)) k = Some s"
    using assms(2) by (rule getSession_keeps)
  from assms(1) show ?thesis
  proof (cases rule: generate_cases)
    case (success bible p request content usage parsed tv xs block)
    show ?thesis
    proof (cases "map_key (session_id_of b) = Some k")
      case True
      with assms(2) have "fst (getSession ss (session_id_of b)) = s" by (simp add: getSession_fst)
      with True have "ss' k = Some (s\<lparr>recent_memory :=
          take 4000 (append_turn (session_memory ss (session_id_of b)) block)\<rparr>)"
        unfolding success(12) by (simp add: put_session_def)
      then show ?thesis by blast
    next
      case False
      with g same show ?thesis unfolding success(12)
        by (auto simp: put_session_def split: option.splits)
    qed
  qed (use assms(2) g same in simp_all)
qed

lemma run_stats:
  "run ss reqs = (rs, ss') \<Longrightarrow> \<forall>k s. ss k = Some s \<longrightarrow> session_stats s = default_stats
   \<Longrightarrow> (\<forall>r \<in> set rs. status r = 200 \<longrightarrow> get_prop (body r) (js ''stats'') = Some (stats_json default_stats))
       \<and> (\<forall>k s. ss' k = Some s \<longrightarrow> session_stats s = default_stats)"
proof (induction reqs arbitrary: ss rs ss')
  case Nil
  then show ?case by simp
next
  case (Cons req reqs)
  obtain w b where req: "req = (w, b)" by (cases req)
  obtain r ss1 calls where g: "generate w ss b = (r, ss1, calls)" by (cases "generate w ss b") auto
  obtain rs1 ss2 where rn: "run ss1 reqs = (rs1, ss2)" by (cases "run ss1 reqs")
  from Cons.prems(1) req g rn have eq: "rs = r # rs1" "ss' = ss2" by simp_all
  note st = generate_stats [OF g Cons.prems(2)]
  from Cons.IH [OF rn st(1)] st(2) eq show ?case by simp
qed


text \<open>
  C9. In the structured-JSON variant a session is created with the stats
  \<open>{health: 10, reputation: 0, money: 0}\<close>; a request changes nothing of an existing session
  but its \<open>recent_memory\<close>; so after every sequence of requests from the empty store, every
  session has these stats and every 200 response carries them.
\<close>

theorem stats_never_change:
  "(map_key sid = Some k \<and> ss k = None \<longrightarrow> getSession ss sid = (new_session, ss(k \<mapsto> new_session)))
   \<and> (map_key sid = None \<longrightarrow> getSession ss sid = (new_session, ss))
   \<and> session_stats new_session = \<lparr>health = 10, reputation = 0, money = 0\<rparr>
   \<and> (generate w ss b = (r, ss', calls) \<and> ss k = Some s \<longrightarrow>
        (\<exists>m. ss' k = Some (s\<lparr>recent_memory := m\<rparr>)))
   \<and> (run Map.empty reqs = (rs, ss'') \<longrightarrow>
        (\<forall>r \<in> set rs. status r = 200 \<longrightarrow>
           get_prop (body r) (js ''stats'')
             = Some (JObj [(js ''health'', JNum (Finite False 5 1)), (js ''reputation'', JNum (Finite False 0 0)),
                           (js ''money'', JNum (Finite False 0 0))]))
        \<and> (\<forall>k s. ss'' k = Some s \<longrightarrow> session_stats s = \<lparr>health = 10, reputation = 0, money = 0\<rparr>))"
proof -
  have d: "stats_json default_stats
      = JObj [(js ''health'', JNum (Finite False 5 1)), (js ''reputation'', JNum (Finite False 0 0)),
              (js ''money'', JNum (Finite False 0 0))]"
    "default_stats = \<lparr>health = 10, reputation = 0, money = 0\<rparr>"
    by (simp_all add: stats_json_def default_stats_def number_of_int_10 number_of_int_0)
  have e: "\<forall>k s. Map.empty k = Some s \<longrightarrow> session_stats s = default_stats" by simp
  show ?thesis
    using generate_frame [of w ss b r ss' calls k s] run_stats [of Map.empty reqs rs ss'', OF _ e]
    by (simp add: d [symmetric] getSession_def new_session_def)
qed

lemma map_key_demo: "map_key (JStr (js ''demo'')) = Some (JStr (js ''demo''))"
  by simp

theorem stats_never_change_witness:
  "getSession Map.empty (JStr (js ''demo'')) = (new_session, [JStr (js ''demo'') \<mapsto> new_session])
   \<and> getSession Map.empty (JArr []) = (new_session, Map.empty)
   \<and> (\<exists>m. fst (snd (generate example_world [JStr (js ''demo'') \<mapsto> new_session] example_body))
              (JStr (js ''demo''))
            = Some (new_session\<lparr>recent_memory := m\<rparr>))
   \<and> map status (fst (run Map.empty three_requests)) = [200, 500, 200]
   \<and> map (\<lambda>r. get_prop (body r) (js ''stats'')) (fst (run Map.empty three_requests))
       = [Some (JObj [(js ''health'', JNum (Finite False 5 1)), (js ''reputation'', JNum (Finite False 0 0)),
                      (js ''money'', JNum (Finite False 0 0))]),
          None,
          Some (JObj [(js ''health'', JNum (Finite False 5 1)), (js ''reputation'', JNum (Finite False 0 0)),
                      (js ''money'', JNum (Finite False 0 0))])]
   \<and> map_option session_stats (snd (run Map.empty three_requests) (JStr (js ''demo'')))
       = Some \<lparr>health = 10, reputation = 0, money = 0\<rparr>"
proof -
  have r: "fst (run Map.empty three_requests)
      = [success_response (JStr (js ''demo'')) (JStr (js ''A''))
           [JStr (js ''a''), JStr (js ''b''), JStr (js ''c'')] default_stats,
         bad_shape_response two_choices_json two_choices_text,
         success_response (JStr (js ''demo'')) (JStr (js ''A''))
           [JStr (js ''a''), JStr (js ''b''), JStr (js ''c'')] default_stats]"
    "\<exists>s. snd (run Map.empty three_requests) (JStr (js ''demo'')) = Some s"
    by (simp_all add: three_requests_def example_generate two_choices_generate getSession_def
        put_session_def new_session_def)
  then obtain s0 where s0: "snd (run Map.empty three_requests) (JStr (js ''demo'')) = Some s0"
    by blast
  have A: "getSession Map.empty (JStr (js ''demo'')) = (new_session, [JStr (js ''demo'') \<mapsto> new_session])"
    using stats_never_change [of "JStr (js ''demo'')" "JStr (js ''demo'')" Map.empty] by simp
  have B: "getSession Map.empty (JArr []) = (new_session, Map.empty)"
    using stats_never_change [of "JArr []" _ Map.empty] by simp
  have C: "\<exists>m. fst (snd (generate example_world [JStr (js ''demo'') \<mapsto> new_session] example_body))
              (JStr (js ''demo''))
            = Some (new_session\<lparr>recent_memory := m\<rparr>)"
    using stats_never_change [of _ "JStr (js ''demo'')" "[JStr (js ''demo'') \<mapsto> new_session]"
            example_world example_body
            "fst (generate example_world [JStr (js ''demo'') \<mapsto> new_session] example_body)"
            "fst (snd (generate example_world [JStr (js ''demo'') \<mapsto> new_session] example_body))"
            "snd (snd (generate example_world [JStr (js ''demo'') \<mapsto> new_session] example_body))"
            new_session]
    by simp
  have D: "(\<forall>r \<in> set (fst (run Map.empty three_requests)). status r = 200 \<longrightarrow>
             get_prop (body r) (js ''stats'')
               = Some (JObj [(js ''health'', JNum (Finite False 5 1)), (js ''reputation'', JNum (Finite False 0 0)),
                             (js ''money'', JNum (Finite False 0 0))]))
           \<and> (\<forall>k s. snd (run Map.empty three_requests) k = Some s \<longrightarrow>
                 session_stats s = \<lparr>health = 10, reputation = 0, money = 0\<rparr>)"
    using stats_never_change [of _ _ _ _ _ _ _ _ _ three_requests
            "fst (run Map.empty three_requests)" "snd (run Map.empty three_requests)"]
    by simp
  have E: "get_prop (body (bad_shape_response two_choices_json two_choices_text)) (js ''stats'') = None"
    by (simp add: bad_shape_response_def js_def)
  from D s0 have F: "session_stats s0 = \<lparr>health = 10, reputation = 0, money = 0\<rparr>" by blast
  from D have G: "map (\<lambda>r. get_prop (body r) (js ''stats'')) (fst (run Map.empty three_requests))
       = [Some (JObj [(js ''health'', JNum (Finite False 5 1)), (js ''reputation'', JNum (Finite False 0 0)),
                      (js ''money'', JNum (Finite False 0 0))]),
          None,
          Some (JObj [(js ''health'', JNum (Finite False 5 1)), (js ''reputation'', JNum (Finite False 0 0)),
                      (js ''money'', JNum (Finite False 0 0))])]"
    unfolding r(1) using E by (simp add: success_response_def)
  have H: "map status (fst (run Map.empty three_requests)) = [200, 500, 200]"
    unfolding r(1) by (simp add: success_response_def bad_shape_response_def)
  from A B C G H F s0 show ?thesis by simp
qed

subsection \<open>The default session\<close>

lemma session_id_default: "js ''session_id'' \<notin> fst ` set b \<Longrightarrow> session_id_of b = JStr (js ''demo'')"
  using map_of_eq_None_iff [of b "js ''session_id''"] by (simp add: session_id_of_def)

lemma relay_session_default:
  assumes "js ''session_id'' \<notin> fst ` set b" "relay_payload b = Inr p"
  shows "r_session_id p = js ''demo''"
proof -
  from assms(1) have n: "map_of b (js ''session_id'') = None" by (simp add: map_of_eq_None_iff)
  have d: "js ''demo'' \<noteq> []" "length (js ''demo'') \<le> 80" by (simp_all add: js_def)
  from assms(2) show ?thesis
    by (auto simp: relay_payload_def bind_thrown_def n d split: sum.splits)
qed

text \<open>The handler reads the store only through the session of the request.\<close>

lemma generate_reads_session:
  assumes "fst (getSession ss2 (session_id_of b)) = fst (getSession ss (session_id_of b))"
  shows "fst (generate w ss2 b) = fst (generate w ss b)"
    and "snd (snd (generate w ss2 b)) = snd (snd (generate w ss b))"
  using assms
  by (simp_all add: generate_def Let_def split_beta
      split: sum.splits api_result.splits option.splits)

lemma generate_writes_session:
  assumes "generate w ss b = (r, ss', calls)" "map_key (session_id_of b) \<noteq> Some k"
  shows "ss' k = ss k"
proof -
  have g: "snd (getSession ss (session_id_of b)) k = ss k"
    using assms(2) by (auto simp: getSession_snd split: option.splits)
  from assms(1) show ?thesis
  proof (cases rule: generate_cases)
    case (success bible p request content usage parsed tv xs block)
    with g assms(2) show ?thesis by (auto simp: put_session_def split: option.splits)
  qed (use g in simp_all)
qed


lemma generate_session_record:
  assumes "map_key (session_id_of b) = Some k" "ss2 k = ss k"
  shows "fst (snd (generate w ss2 b)) k = fst (snd (generate w ss b)) k"
  using assms
  by (simp add: generate_def Let_def split_beta getSession_fst getSession_snd put_session_def
      split: sum.splits api_result.splits option.splits)

text \<open>What a request does with the record of its session.\<close>

lemma generate_record:
  assumes g: "generate w ss b = (r, ss', calls)" and k: "map_key (session_id_of b) = Some k"
    and s: "ss k = Some s \<or> ss k = None \<and> s = new_session"
  shows "calls = [request] \<Longrightarrow>
      \<exists>bible p. bible_file w = Inr bible \<and> make_payload b = Inr p
        \<and> user_content request
            = build_prompt bible (statsLine (session_stats s)) p (take 4000 (recent_memory s))"
    and "status r = 200 \<Longrightarrow>
      \<exists>tv xs p block. get_prop (body r) (js ''text'') = Some tv
        \<and> get_prop (body r) (js ''choices'') = Some (JArr xs)
        \<and> make_payload b = Inr p \<and> turnBlock p (Some tv) xs = Inr block
        \<and> ss' k = Some (s\<lparr>recent_memory := take 4000 (append_turn (recent_memory s) block)\<rparr>)"
    and "status r = 500 \<Longrightarrow> ss' k = Some s"
    and "status r = 400 \<or> status r = 413 \<Longrightarrow> ss' = ss"
proof -
  from k s have f: "fst (getSession ss (session_id_of b)) = s"
    by (auto simp: getSession_fst)
  from k s have n: "snd (getSession ss (session_id_of b)) k = Some s"
    by (auto simp: getSession_snd)
  from f have m: "session_memory ss (session_id_of b) = recent_memory s"
    by (simp add: session_memory_def)
  note defs = error_response_def too_large_def server_error_def not_json_response_def
    bad_shape_response_def success_response_def
  {
    assume "calls = [request]"
    with g show "\<exists>bible p. bible_file w = Inr bible \<and> make_payload b = Inr p
        \<and> user_content request
            = build_prompt bible (statsLine (session_stats s)) p (take 4000 (recent_memory s))"
      by (cases rule: generate_cases) (auto simp: completion_request_def f m)
  }
  {
    assume st: "status r = 200"
    from g show "\<exists>tv xs p block. get_prop (body r) (js ''text'') = Some tv
        \<and> get_prop (body r) (js ''choices'') = Some (JArr xs)
        \<and> make_payload b = Inr p \<and> turnBlock p (Some tv) xs = Inr block
        \<and> ss' k = Some (s\<lparr>recent_memory := take 4000 (append_turn (recent_memory s) block)\<rparr>)"
    proof (cases rule: generate_cases)
      case (success bible p request content usage parsed tv xs block)
      from success(11) have "get_prop (body r) (js ''text'') = Some tv"
        "get_prop (body r) (js ''choices'') = Some (JArr xs)"
        by (simp_all add: success_response_def js_def)
      moreover from success(12) k have
        "ss' k = Some (s\<lparr>recent_memory := take 4000 (append_turn (recent_memory s) block)\<rparr>)"
        by (simp add: put_session_def f m)
      ultimately show ?thesis using success(2,10) by blast
    qed (use st in \<open>simp_all add: defs\<close>)
  }
  {
    assume st: "status r = 500"
    from g show "ss' k = Some s"
      by (cases rule: generate_cases) (use st n in \<open>simp_all add: defs\<close>)
  }
  {
    assume st: "status r = 400 \<or> status r = 413"
    from g show "ss' = ss"
      by (cases rule: generate_cases) (use st in \<open>simp_all add: defs\<close>)
  }
qed

text \<open>
  C10. For a request that omits \<open>session_id\<close>, the identifier is the literal \<open>demo\<close> in all
  three files: the destructuring default of the structured variant and of \<open>server.js\<close>, and
  the \<open>session_id\<close> of the payload of the prose variant. In the structured variant a 200
  response echoes \<open>session_id\<close> \<open>demo\<close>, and such a request works on the record that the
  store holds under \<open>demo\<close> (a new record with the default stats and an empty memory when
  there is none) and on no other: the prompt it sends is built from the stats and the memory
  of that record; a 200 response leaves that record under \<open>demo\<close> with the turn summary
  appended to its memory; a 500 response leaves it there unchanged; a 400 or 413 response
  leaves the store as it was; no other record is written, and the response, the call and the
  new record depend on the store only through that record. So a second request that omits
  \<open>session_id\<close> sends a prompt built from the memory that the first one wrote.
\<close>

theorem default_session_id:
  "js ''session_id'' \<notin> fst ` set b \<longrightarrow>
     session_id_of b = JStr (js ''demo'')
     \<and> l_session_id (server_locals b) = JStr (js ''demo'')
     \<and> (relay_payload b = Inr p \<longrightarrow> r_session_id p = js ''demo'')
     \<and> (generate w ss b = (r, ss', calls) \<longrightarrow>
          (status r = 200 \<longrightarrow> get_prop (body r) (js ''session_id'') = Some (JStr (js ''demo'')))
          \<and> (\<forall>k. k \<noteq> JStr (js ''demo'') \<longrightarrow> ss' k = ss k)
          \<and> (\<forall>ss2. ss2 (JStr (js ''demo'')) = ss (JStr (js ''demo'')) \<longrightarrow>
                fst (generate w ss2 b) = r \<and> snd (snd (generate w ss2 b)) = calls
                \<and> fst (snd (generate w ss2 b)) (JStr (js ''demo'')) = ss' (JStr (js ''demo'')))
          \<and> (ss (JStr (js ''demo'')) = Some s
               \<or> ss (JStr (js ''demo'')) = None
                  \<and> s = \<lparr>recent_memory = [],
                          session_stats = \<lparr>health = 10, reputation = 0, money = 0\<rparr>\<rparr> \<longrightarrow>
              (calls = [request] \<longrightarrow>
                 (\<exists>bible pl. bible_file w = Inr bible \<and> make_payload b = Inr pl
                    \<and> user_content request
                        = build_prompt bible (statsLine (session_stats s)) pl
                            (take 4000 (recent_memory s))))
              \<and> (status r = 500 \<longrightarrow> ss' (JStr (js ''demo'')) = Some s)
              \<and> (status r = 400 \<or> status r = 413 \<longrightarrow> ss' = ss)
              \<and> (status r = 200 \<longrightarrow>
                  (\<exists>tv xs pl block.
                     get_prop (body r) (js ''text'') = Some tv
                     \<and> get_prop (body r) (js ''choices'') = Some (JArr xs)
                     \<and> make_payload b = Inr pl \<and> turnBlock pl (Some tv) xs = Inr block
                     \<and> ss' (JStr (js ''demo''))
                         = Some (s\<lparr>recent_memory :=
                                     take 4000 (append_turn (recent_memory s) block)\<rparr>)
                     \<and> (js ''session_id'' \<notin> fst ` set b2
                          \<and> generate w2 ss' b2 = (r2, ss2', [request2]) \<longrightarrow>
                         (\<exists>bible2 pl2. bible_file w2 = Inr bible2 \<and> make_payload b2 = Inr pl2
                            \<and> user_content request2
                                = build_prompt bible2 (statsLine (session_stats s)) pl2
                                    (take 4000 (append_turn (recent_memory s) block))))))))"
proof (intro impI conjI allI)
  assume a: "js ''session_id'' \<notin> fst ` set b"
  then show sid: "session_id_of b = JStr (js ''demo'')" by (rule session_id_default)
  then show "l_session_id (server_locals b) = JStr (js ''demo'')" by (simp add: server_locals_def)
  have k: "map_key (session_id_of b) = Some (JStr (js ''demo''))" by (simp add: sid)
  {
    assume "relay_payload b = Inr p"
    with a show "r_session_id p = js ''demo''" by (rule relay_session_default)
  }
  {
    assume g: "generate w ss b = (r, ss', calls)" and "status r = 200"
    from g show "get_prop (body r) (js ''session_id'') = Some (JStr (js ''demo''))"
    proof (cases rule: generate_cases)
      case (success bible p request content usage parsed tv xs block)
      then show ?thesis by (simp add: success_response_def sid)
    qed (use \<open>status r = 200\<close> in \<open>simp_all add: error_response_def too_large_def server_error_def
          not_json_response_def bad_shape_response_def\<close>)
  }
  {
    fix k' :: json
    assume g: "generate w ss b = (r, ss', calls)" and "k' \<noteq> JStr (js ''demo'')"
    with k show "ss' k' = ss k'" by (intro generate_writes_session [OF g]) simp
  }
  {
    fix ss2 :: sessions
    assume g: "generate w ss b = (r, ss', calls)"
      and e: "ss2 (JStr (js ''demo'')) = ss (JStr (js ''demo''))"
    from e k have f: "fst (getSession ss2 (session_id_of b)) = fst (getSession ss (session_id_of b))"
      by (simp add: getSession_fst)
    from generate_reads_session [OF f, of w] g
    show "fst (generate w ss2 b) = r" and "snd (snd (generate w ss2 b)) = calls" by simp_all
    from generate_session_record [of b "JStr (js ''demo'')" ss2 ss w] k e g
    show "fst (snd (generate w ss2 b)) (JStr (js ''demo'')) = ss' (JStr (js ''demo''))" by simp
  }
  {
    assume g: "generate w ss b = (r, ss', calls)"
      and s0: "ss (JStr (js ''demo'')) = Some s
               \<or> ss (JStr (js ''demo'')) = None
                  \<and> s = \<lparr>recent_memory = [],
                          session_stats = \<lparr>health = 10, reputation = 0, money = 0\<rparr>\<rparr>"
    then have s: "ss (JStr (js ''demo'')) = Some s \<or> ss (JStr (js ''demo'')) = None \<and> s = new_session"
      by (simp add: new_session_def default_stats_def)
    note R = generate_record [OF g k s]
    {
      assume "calls = [request]"
      then show "\<exists>bible pl. bible_file w = Inr bible \<and> make_payload b = Inr pl
          \<and> user_content request
              = build_prompt bible (statsLine (session_stats s)) pl (take 4000 (recent_memory s))"
        by (rule R(1))
    }
    {
      assume "status r = 500"
      then show "ss' (JStr (js ''demo'')) = Some s" by (rule R(3))
    }
    {
      assume "status r = 400 \<or> status r = 413"
      then show "ss' = ss" by (rule R(4))
    }
    {
      assume "status r = 200"
      from R(2) [OF this] obtain tv xs pl block where w:
        "get_prop (body r) (js ''text'') = Some tv"
        "get_prop (body r) (js ''choices'') = Some (JArr xs)"
        "make_payload b = Inr pl" "turnBlock pl (Some tv) xs = Inr block"
        "ss' (JStr (js ''demo''))
           = Some (s\<lparr>recent_memory := take 4000 (append_turn (recent_memory s) block)\<rparr>)"
        by blast
      have "\<exists>bible2 pl2. bible_file w2 = Inr bible2 \<and> make_payload b2 = Inr pl2
              \<and> user_content request2
                  = build_prompt bible2 (statsLine (session_stats s)) pl2
                      (take 4000 (append_turn (recent_memory s) block))"
        if b2: "js ''session_id'' \<notin> fst ` set b2 \<and> generate w2 ss' b2 = (r2, ss2', [request2])"
      proof -
        from b2 have k2: "map_key (session_id_of b2) = Some (JStr (js ''demo''))"
          by (simp add: session_id_default)
        from b2 have g2: "generate w2 ss' b2 = (r2, ss2', [request2])" by simp
        from w(5) have s2: "ss' (JStr (js ''demo''))
              = Some (s\<lparr>recent_memory := take 4000 (append_turn (recent_memory s) block)\<rparr>)
            \<or> ss' (JStr (js ''demo'')) = None
              \<and> s\<lparr>recent_memory := take 4000 (append_turn (recent_memory s) block)\<rparr> = new_session"
          by simp
        from generate_record(1) [OF g2 k2 s2 refl] show ?thesis by simp
      qed
      with w show "\<exists>tv xs pl block.
                     get_prop (body r) (js ''text'') = Some tv
                     \<and> get_prop (body r) (js ''choices'') = Some (JArr xs)
                     \<and> make_payload b = Inr pl \<and> turnBlock pl (Some tv) xs = Inr block
                     \<and> ss' (JStr (js ''demo''))
                         = Some (s\<lparr>recent_memory :=
                                     take 4000 (append_turn (recent_memory s) block)\<rparr>)
                     \<and> (js ''session_id'' \<notin> fst ` set b2
                          \<and> generate w2 ss' b2 = (r2, ss2', [request2]) \<longrightarrow>
                         (\<exists>bible2 pl2. bible_file w2 = Inr bible2 \<and> make_payload b2 = Inr pl2
                            \<and> user_content request2
                                = build_prompt bible2 (statsLine (session_stats s)) pl2
                                    (take 4000 (append_turn (recent_memory s) block))))"
        by blast
    }
  }
qed

lemma example_relay_payload:
  "relay_payload example_body =
     Inr \<lparr>r_session_id = js ''demo'', r_scene_type = Some (JStr (js ''choice_point'')),
          r_event_id = js ''e1'', r_world_summary = js ''sea'', r_event_card = js ''storm'',
          r_recent_memory = [], r_player_input = js ''hoist''\<rparr>"
  by (simp add: relay_payload_def bind_thrown_def example_body_def js_def)

lemma example_turnBlock:
  "turnBlock example_payload (Some (JStr (js ''A''))) [JStr (js ''a''), JStr (js ''b''), JStr (js ''c'')]
     = Inr example_block"
  by (simp add: turnBlock_def template_def array_join_def bind_thrown_def example_payload_def
      example_block_def js_def)

lemma statsLine_default: "statsLine default_stats = js ''health:10, reputation:0, money:0''"
  by (simp add: statsLine_def default_stats_def number_of_int_10 number_of_int_0
      number_to_string_10 number_to_string_0 js_def)

theorem default_session_id_witness:
  "js ''session_id'' \<notin> fst ` set example_body
   \<and> session_id_of example_body = JStr (js ''demo'')
   \<and> l_session_id (server_locals example_body) = JStr (js ''demo'')
   \<and> map_sum id r_session_id (relay_payload example_body) = Inr (js ''demo'')
   \<and> status (fst (generate example_world Map.empty example_body)) = 200
   \<and> get_prop (body (fst (generate example_world Map.empty example_body))) (js ''session_id'')
       = Some (JStr (js ''demo''))
   \<and> fst (snd (generate example_world Map.empty example_body)) (JStr (js ''other'')) = None
   \<and> fst (generate example_world [JStr (js ''other'') \<mapsto> new_session] example_body)
       = fst (generate example_world Map.empty example_body)
   \<and> fst (snd (generate example_world Map.empty example_body)) (JStr (js ''demo''))
       = Some \<lparr>recent_memory = example_block,
               session_stats = \<lparr>health = 10, reputation = 0, money = 0\<rparr>\<rparr>
   \<and> map user_content
        (snd (snd (generate example_world (fst (snd (generate example_world Map.empty example_body)))
                     example_body)))
       = [build_prompt (js ''LORE'') (js ''health:10, reputation:0, money:0'') example_payload
            example_block]"
proof -
  have a: "js ''session_id'' \<notin> fst ` set example_body"
    by (simp add: example_body_def js_def)
  have o: "JStr (js ''other'') \<noteq> JStr (js ''demo'')" by (simp add: js_def)
  define g where "g = generate example_world Map.empty example_body"
  define g2 where "g2 = generate example_world (fst (snd g)) example_body"
  define s0 where "s0 = \<lparr>recent_memory = [],
                          session_stats = \<lparr>health = 10, reputation = 0, money = 0\<rparr>\<rparr>"
  have s: "status (fst g) = 200"
    by (simp add: g_def example_generate success_response_def)
  have tx: "get_prop (body (fst g)) (js ''text'') = Some (JStr (js ''A''))"
    "get_prop (body (fst g)) (js ''choices'')
       = Some (JArr [JStr (js ''a''), JStr (js ''b''), JStr (js ''c'')])"
    by (simp_all add: g_def example_generate success_response_def js_def)
  have "\<exists>q. snd (snd g2) = [q]" unfolding g2_def by (simp add: example_generate)
  then obtain q where q: "snd (snd g2) = [q]" by blast
  then have e2: "generate example_world (fst (snd g)) example_body
      = (fst g2, fst (snd g2), [hd (snd (snd g2))])"
    by (metis g2_def list.sel(1) prod.collapse)
  note T = default_session_id [of example_body
      "\<lparr>r_session_id = js ''demo'', r_scene_type = Some (JStr (js ''choice_point'')),
          r_event_id = js ''e1'', r_world_summary = js ''sea'', r_event_card = js ''storm'',
          r_recent_memory = [], r_player_input = js ''hoist''\<rparr>"
      example_world Map.empty "fst g" "fst (snd g)" "snd (snd g)" s0 "hd (snd (snd g))"
      example_body example_world "fst g2" "fst (snd g2)" "hd (snd (snd g2))", THEN mp, OF a]
  have e: "generate example_world Map.empty example_body = (fst g, fst (snd g), snd (snd g))"
    by (simp add: g_def)
  from T have c1: "session_id_of example_body = JStr (js ''demo'')"
    and c2: "l_session_id (server_locals example_body) = JStr (js ''demo'')" by blast+
  from T example_relay_payload
  have c3: "map_sum id r_session_id (relay_payload example_body) = Inr (js ''demo'')" by simp
  note U = T [THEN conjunct2, THEN conjunct2, THEN conjunct2, THEN mp, OF e]
  note G1 = U [THEN conjunct1] and G2 = U [THEN conjunct2, THEN conjunct1]
    and G3 = U [THEN conjunct2, THEN conjunct2, THEN conjunct1]
    and G4 = U [THEN conjunct2, THEN conjunct2, THEN conjunct2]
  from G1 s have c4: "get_prop (body (fst g)) (js ''session_id'') = Some (JStr (js ''demo''))"
    by simp
  from G2 [rule_format, of "JStr (js ''other'')"] o
  have c5: "fst (snd g) (JStr (js ''other'')) = None" by simp
  have "[JStr (js ''other'') \<mapsto> new_session] (JStr (js ''demo'')) = Map.empty (JStr (js ''demo''))"
    using o by simp
  with G3 [rule_format, of "[JStr (js ''other'') \<mapsto> new_session]"]
  have c6: "fst (generate example_world [JStr (js ''other'') \<mapsto> new_session] example_body) = fst g"
    by blast
  have h: "Map.empty (JStr (js ''demo'')) = Some s0
      \<or> Map.empty (JStr (js ''demo'')) = None
        \<and> s0 = \<lparr>recent_memory = [],
                 session_stats = \<lparr>health = 10, reputation = 0, money = 0\<rparr>\<rparr>"
    by (simp add: s0_def)
  note W = G4 [THEN mp, OF h, THEN conjunct2, THEN conjunct2, THEN conjunct2, THEN mp, OF s]
  from W obtain tv xs pl block where w:
    "get_prop (body (fst g)) (js ''text'') = Some tv"
    "get_prop (body (fst g)) (js ''choices'') = Some (JArr xs)"
    "make_payload example_body = Inr pl" "turnBlock pl (Some tv) xs = Inr block"
    "fst (snd g) (JStr (js ''demo''))
       = Some (s0\<lparr>recent_memory := take 4000 (append_turn (recent_memory s0) block)\<rparr>)"
    "js ''session_id'' \<notin> fst ` set example_body
       \<and> generate example_world (fst (snd g)) example_body
           = (fst g2, fst (snd g2), [hd (snd (snd g2))]) \<longrightarrow>
     (\<exists>bible2 pl2. bible_file example_world = Inr bible2 \<and> make_payload example_body = Inr pl2
        \<and> user_content (hd (snd (snd g2)))
            = build_prompt bible2 (statsLine (session_stats s0)) pl2
                (take 4000 (append_turn (recent_memory s0) block)))"
    by blast
  from w(1,2) tx have "tv = JStr (js ''A'')" "xs = [JStr (js ''a''), JStr (js ''b''), JStr (js ''c'')]"
    by simp_all
  moreover from w(3) example_body_payload have "pl = example_payload" by simp
  ultimately have bl: "block = example_block" using w(4) example_turnBlock by simp
  have m: "take 4000 (append_turn (recent_memory s0) example_block) = example_block"
    by (simp add: s0_def append_turn_def example_block_def)
  from w(5) have c7: "fst (snd g) (JStr (js ''demo''))
       = Some \<lparr>recent_memory = example_block,
               session_stats = \<lparr>health = 10, reputation = 0, money = 0\<rparr>\<rparr>"
    by (simp add: bl m) (simp add: s0_def)
  have sl: "statsLine (session_stats s0) = js ''health:10, reputation:0, money:0''"
    using statsLine_default by (simp add: s0_def default_stats_def)
  from w(6) a e2 obtain bible2 pl2 where
    "bible_file example_world = Inr bible2" "make_payload example_body = Inr pl2"
    "user_content (hd (snd (snd g2)))
       = build_prompt bible2 (statsLine (session_stats s0)) pl2
           (take 4000 (append_turn (recent_memory s0) block))"
    by blast
  with example_body_payload have "user_content (hd (snd (snd g2)))
       = build_prompt (js ''LORE'') (js ''health:10, reputation:0, money:0'') example_payload
           example_block"
    by (simp add: example_world_def bl m sl)
  with q have c8: "map user_content (snd (snd g2))
       = [build_prompt (js ''LORE'') (js ''health:10, reputation:0, money:0'') example_payload
            example_block]"
    by simp
  from a c1 c2 c3 s c4 c5 c6 c7 c8 show ?thesis unfolding g_def g2_def by (intro conjI)
qed

subsection \<open>Failures of the credential, the API call and the parsing\<close>

lemma generate_relay_no_key:
  assumes "validateGenerateBody_prose b = None" "\<not> MAX_INPUT_CHARS < length (JSON_stringify (JObj b))"
    "\<not> truthy (map_option JStr (OPENAI_API_KEY w))"
  shows "status (fst (generate_relay w b)) = 500" and "snd (generate_relay w b) = []"
  using assms
  by (simp_all add: generate_relay_def relay_error_def error_response_def split: sum.splits)

lemma generate_relay_calls: "length (snd (generate_relay w b)) \<le> 1"
  by (simp add: generate_relay_def Let_def split: sum.splits api_result.splits)

lemma generate_relay_throws:
  assumes "generate_relay w b = (r, [request])" "api w request = ApiThrows e"
  shows "r = relay_error e"
  using assms
  by (auto simp: generate_relay_def Let_def split: sum.splits api_result.splits if_splits)

lemma generate_calls: "length (snd (snd (generate w ss b))) \<le> 1"
proof -
  obtain r ss' calls where g: "generate w ss b = (r, ss', calls)" by (cases "generate w ss b") auto
  then have "length calls \<le> 1" by (cases rule: generate_cases) simp_all
  with g show ?thesis by simp
qed

lemma generate_throws:
  assumes "generate w ss b = (r, ss', [request])" "api w request = ApiThrows e"
  shows "r = server_error" and "\<forall>sid. session_memory ss' sid = session_memory ss sid"
proof -
  from assms(1) have "r = server_error \<and> ss' = snd (getSession ss (session_id_of b))"
    by (cases rule: generate_cases) (use assms(2) in auto)
  then show "r = server_error" and "\<forall>sid. session_memory ss' sid = session_memory ss sid"
    by (simp_all add: getSession_memory)
qed

lemma generate_not_json:
  assumes "generate w ss b = (r, ss', [request])" "api w request = ApiReturns content usage"
    "tryParseModelJson (case content of None \<Rightarrow> [] | Some c \<Rightarrow> c) = Inl pe"
  shows "r = not_json_response (case content of None \<Rightarrow> [] | Some c \<Rightarrow> c)"
    and "\<forall>sid. session_memory ss' sid = session_memory ss sid"
proof -
  from assms(1) have "r = not_json_response (case content of None \<Rightarrow> [] | Some c \<Rightarrow> c)
      \<and> ss' = snd (getSession ss (session_id_of b))"
    by (cases rule: generate_cases) (use assms(2,3) in auto)
  then show "r = not_json_response (case content of None \<Rightarrow> [] | Some c \<Rightarrow> c)"
    and "\<forall>sid. session_memory ss' sid = session_memory ss sid"
    by (simp_all add: getSession_memory)
qed

text \<open>
  C8 (as amended). In the prose variant that checks the credential, a request that passes
  the validator and the size guard while \<open>OPENAI_API_KEY\<close> is absent or empty is answered with
  status 500 and no call to the API. In that variant and in the structured one, an exception
  thrown by the completion call is caught and answered with status 500 and a short error
  (the message of the exception as \<open>detail\<close> in the prose variant); in the structured variant
  an output that the recovery parser rejects is answered with status 500 and the raw output.
  No handler calls the API more than once, and after such a failure every session reads the
  memory it read before.
\<close>

theorem failure_semantics:
  "(validateGenerateBody_prose b = None \<and> \<not> MAX_INPUT_CHARS < length (JSON_stringify (JObj b))
      \<and> \<not> truthy (map_option JStr (OPENAI_API_KEY w))
     \<longrightarrow> status (fst (generate_relay w b)) = 500 \<and> snd (generate_relay w b) = [])
   \<and> (generate_relay w b = (r, [request]) \<and> api w request = ApiThrows e
     \<longrightarrow> r = \<lparr>status = 500,
              body = JObj [(js ''error'', JStr (js ''Server error'')),
                           (js ''detail'', JStr (error_detail e))]\<rparr>)
   \<and> (generate w ss b = (r', ss', [request']) \<and> api w request' = ApiThrows e
     \<longrightarrow> r' = \<lparr>status = 500, body = JObj [(js ''error'', JStr (js ''server error''))]\<rparr>
         \<and> (\<forall>sid. session_memory ss' sid = session_memory ss sid))
   \<and> (generate w ss b = (r', ss', [request']) \<and> api w request' = ApiReturns content usage
       \<and> tryParseModelJson (case content of None \<Rightarrow> [] | Some c \<Rightarrow> c) = Inl pe
     \<longrightarrow> r' = \<lparr>status = 500,
               body = JObj [(js ''error'', JStr (js ''Model did not return valid JSON'')),
                            (js ''raw'', JStr (case content of None \<Rightarrow> [] | Some c \<Rightarrow> c))]\<rparr>
         \<and> (\<forall>sid. session_memory ss' sid = session_memory ss sid))
   \<and> length (snd (generate_relay w b)) \<le> 1
   \<and> length (snd (snd (generate w ss b))) \<le> 1"
  using generate_relay_no_key [of b w] generate_relay_throws [of w b r request e]
    generate_throws [of w ss b r' ss' request' e]
    generate_not_json [of w ss b r' ss' request' content usage pe]
    generate_relay_calls [of w b] generate_calls [of w ss b]
  by (simp add: relay_error_def server_error_def error_response_def not_json_response_def)


lemma example_body_valid_prose: "validateGenerateBody_prose example_body = None"
  by (simp add: validateGenerateBody_prose_def required_def example_body_def js_def)

lemma failing_relay:
  "\<exists>q. generate_relay failing_world example_body = (relay_error connection_error, [q])"
  using example_body_valid_prose example_body_small
  by (simp add: generate_relay_def Let_def example_relay_payload failing_world_def example_world_def
      buildSystemPrompt_def template_def bind_thrown_def js_def [abs_def])

lemma failing_generate:
  "\<exists>q. generate failing_world Map.empty example_body
         = (server_error, snd (getSession Map.empty (JStr (js ''demo''))), [q])"
  using example_body_valid example_body_small
  by (simp add: generate_def Let_def example_body_session example_body_payload
      failing_world_def example_world_def split: prod.splits)

lemma prose_generate:
  "\<exists>q. generate prose_world Map.empty example_body
         = (not_json_response (js ''The sea is calm.''),
            snd (getSession Map.empty (JStr (js ''demo''))), [q])"
proof -
  have p: "tryParseModelJson (js ''The sea is calm.'') = Inl InvalidJSON"
    by (simp add: tryParseModelJson_def JSON_parse_def js_def skip_ws_def is_ws_def is_digit_def
        lastIndexOf_def)
  show ?thesis
    using example_body_valid example_body_small p
    by (simp add: generate_def Let_def example_body_session example_body_payload
        prose_world_def example_world_def split: prod.splits)
qed

theorem failure_semantics_witness:
  "status (fst (generate_relay no_key_world example_body)) = 500
   \<and> snd (generate_relay no_key_world example_body) = []
   \<and> fst (generate_relay failing_world example_body)
       = \<lparr>status = 500,
          body = JObj [(js ''error'', JStr (js ''Server error'')),
                       (js ''detail'', JStr (js ''Connection error.''))]\<rparr>
   \<and> fst (generate failing_world Map.empty example_body)
       = \<lparr>status = 500, body = JObj [(js ''error'', JStr (js ''server error''))]\<rparr>
   \<and> fst (generate prose_world Map.empty example_body)
       = \<lparr>status = 500,
          body = JObj [(js ''error'', JStr (js ''Model did not return valid JSON'')),
                       (js ''raw'', JStr (js ''The sea is calm.''))]\<rparr>
   \<and> session_memory (fst (snd (generate prose_world Map.empty example_body))) (JStr (js ''demo''))
       = session_memory Map.empty (JStr (js ''demo''))"
proof -
  obtain q1 where q1: "generate_relay failing_world example_body = (relay_error connection_error, [q1])"
    using failing_relay by blast
  obtain q2 where q2: "generate failing_world Map.empty example_body
         = (server_error, snd (getSession Map.empty (JStr (js ''demo''))), [q2])"
    using failing_generate by blast
  obtain q3 where q3: "generate prose_world Map.empty example_body
         = (not_json_response (js ''The sea is calm.''),
            snd (getSession Map.empty (JStr (js ''demo''))), [q3])"
    using prose_generate by blast
  have p: "tryParseModelJson (js ''The sea is calm.'') = Inl InvalidJSON"
    by (simp add: tryParseModelJson_def JSON_parse_def js_def skip_ws_def is_ws_def is_digit_def
        lastIndexOf_def)
  have k: "\<not> truthy (map_option JStr (OPENAI_API_KEY no_key_world))"
    by (simp add: no_key_world_def)
  have d: "error_detail connection_error = js ''Connection error.''"
    by (simp add: error_detail_def connection_error_def js_def)
  have a: "api failing_world q = ApiThrows connection_error"
    "api prose_world q = ApiReturns (Some (js ''The sea is calm.'')) None" for q
    by (simp_all add: failing_world_def prose_world_def)
  from failure_semantics [of example_body no_key_world] example_body_valid_prose example_body_small k
  have c1: "status (fst (generate_relay no_key_world example_body)) = 500
      \<and> snd (generate_relay no_key_world example_body) = []"
    by blast
  from failure_semantics [of example_body failing_world "relay_error connection_error" q1
      connection_error Map.empty server_error "snd (getSession Map.empty (JStr (js ''demo'')))" q2]
    q1 q2 a(1) d
  have c2: "fst (generate_relay failing_world example_body)
       = \<lparr>status = 500,
          body = JObj [(js ''error'', JStr (js ''Server error'')),
                       (js ''detail'', JStr (js ''Connection error.''))]\<rparr>"
    and c3: "fst (generate failing_world Map.empty example_body)
       = \<lparr>status = 500, body = JObj [(js ''error'', JStr (js ''server error''))]\<rparr>"
    by simp_all
  from failure_semantics [of example_body prose_world _ _ connection_error Map.empty
      "not_json_response (js ''The sea is calm.'')" "snd (getSession Map.empty (JStr (js ''demo'')))" q3
      "Some (js ''The sea is calm.'')" None InvalidJSON]
    q3 a(2) p
  have c4: "fst (generate prose_world Map.empty example_body)
       = \<lparr>status = 500,
          body = JObj [(js ''error'', JStr (js ''Model did not return valid JSON'')),
                       (js ''raw'', JStr (js ''The sea is calm.''))]\<rparr>"
    and c5: "session_memory (fst (snd (generate prose_world Map.empty example_body))) (JStr (js ''demo''))
       = session_memory Map.empty (JStr (js ''demo''))"
    by simp_all
  from c1 c2 c3 c4 c5 show ?thesis by (intro conjI) simp_all
qed

text \<open>
  C8 as stated fails for a request that does not reach the check of the credential: with
  the credential absent, a valid request with an oversized body is answered with 413 and the
  empty body with 400, not with 500.
\<close>

theorem missing_key_early_counterexample:
  "\<not> truthy (map_option JStr (OPENAI_API_KEY no_key_world))
   \<and> validateGenerateBody_prose oversized_body = None
   \<and> generate_relay no_key_world oversized_body = (too_large, [])
   \<and> status too_large = 413
   \<and> generate_relay no_key_world [] = (error_response 400 (js ''Missing field: scene_type''), [])
   \<and> status (error_response 400 (js ''Missing field: scene_type'')) = 400"
proof -
  have e: "validateGenerateBody_prose [] = Some (js ''Missing field: scene_type'')"
    by (simp add: validateGenerateBody_prose_def required_def js_def)
  have v: "validateGenerateBody_prose oversized_body = None"
    by (simp add: validateGenerateBody_prose_def required_def oversized_body_def js_def)
  from v oversized_body_length have "generate_relay no_key_world oversized_body = (too_large, [])"
    by (rule generate_relay_413)
  with e v show ?thesis
    using generate_relay_400 [of "[]" _ no_key_world]
    by (simp add: no_key_world_def error_response_def too_large_def)
qed

subsection \<open>Server-side memory in the next prompt\<close>

lemma trim_keeps_middle:
  assumes "\<exists>x \<in> set A. \<not> is_js_space x" "\<exists>x \<in> set C. \<not> is_js_space x"
  shows "\<exists>A' C'. trim (A @ B @ C) = A' @ B @ C'"
proof -
  from assms(1) have 1: "dropWhile is_js_space (A @ B @ C) = dropWhile is_js_space A @ B @ C"
    by (auto simp: dropWhile_append1)
  from assms(2) have "\<exists>x \<in> set (rev C). \<not> is_js_space x" by simp
  then have 2: "dropWhile is_js_space (rev C @ rev B @ rev (dropWhile is_js_space A))
      = dropWhile is_js_space (rev C) @ rev B @ rev (dropWhile is_js_space A)"
    by (auto simp: dropWhile_append1)
  have "trim (A @ B @ C) = dropWhile is_js_space A @ B @ rev (dropWhile is_js_space (rev C))"
    by (simp add: trim_def 1 2)
  then show ?thesis by blast
qed

lemma build_prompt_memory:
  "\<exists>pre post. build_prompt bible sl p mem
      = pre @ memory_heading @ (if mem \<noteq> [] then mem else js ''(none)'')
        @ js ''\<newline>\<newline>PLAYER ACTION:\<newline>'' @ post"
proof -
  define A where "A = js ''\<newline>''
       @ js ''You are a careful interactive narrative engine. Follow the bible and all rules exactly.\<newline>''
       @ js ''\<newline>''
       @ js ''BIBLE:\<newline>''
       @ bible @ js ''\<newline>''
       @ js ''\<newline>''
       @ js ''CURRENT STATS:\<newline>''
       @ sl @ js ''\<newline>''
       @ js ''\<newline>''
       @ js ''WORLD SUMMARY:\<newline>''
       @ p_world_summary p @ js ''\<newline>''
       @ js ''\<newline>''
       @ js ''EVENT:\<newline>''
       @ p_event_card p @ js ''\<newline>''
       @ js ''\<newline>''"
  define B where "B = memory_heading @ (if mem \<noteq> [] then mem else js ''(none)'')
        @ js ''\<newline>\<newline>PLAYER ACTION:\<newline>''"
  define C where "C = p_player_input p @ js ''\<newline>'' @ js ''\<newline>'' @ prompt_rules"
  have e: "build_prompt bible sl p mem = trim (A @ B @ C)"
    by (simp add: build_prompt_def A_def B_def C_def js_def)
  have "(0x59::16 word) \<in> set A" by (simp add: A_def js_def)
  moreover have "\<not> is_js_space 0x59" by (simp add: is_js_space_def)
  ultimately have a: "\<exists>x \<in> set A. \<not> is_js_space x" by blast
  have "(0x52::16 word) \<in> set C" by (simp add: C_def prompt_rules_def js_def)
  moreover have "\<not> is_js_space 0x52" by (simp add: is_js_space_def)
  ultimately have c: "\<exists>x \<in> set C. \<not> is_js_space x" by blast
  from trim_keeps_middle [OF a c, of B] obtain A' C' where "trim (A @ B @ C) = A' @ B @ C'"
    by blast
  with e have "build_prompt bible sl p mem = A' @ memory_heading
      @ (if mem \<noteq> [] then mem else js ''(none)'') @ js ''\<newline>\<newline>PLAYER ACTION:\<newline>'' @ C'"
    by (simp add: B_def)
  then show ?thesis by blast
qed

lemma put_session_memory:
  "map_key sid \<noteq> None \<Longrightarrow> session_memory (put_session ss sid s) sid = recent_memory s"
  by (auto simp: session_memory_def put_session_def getSession_def)

lemma turnBlock_result:
  assumes "turnBlock p (Some tv) xs = Inr block"
  shows "\<exists>t c. js_ToString tv = Some t
     \<and> block = js ''PLAYER: '' @ p_player_input p @ js ''\<newline>RESULT: '' @ t @ js ''\<newline>CHOICES: '' @ c"
  using assms
  by (auto simp: turnBlock_def template_def bind_thrown_def split: option.splits)

text \<open>What a request that reaches the API sends.\<close>

lemma generate_request:
  assumes "generate w ss b = (r, ss', [request])"
  shows "\<exists>bible p. user_content request
     = build_prompt bible (statsLine (session_stats (fst (getSession ss (session_id_of b))))) p
         (take 4000 (session_memory ss (session_id_of b)))"
  using assms
  by (cases rule: generate_cases) (auto simp: completion_request_def)

lemma generate_success_memory:
  assumes "generate w ss b = (r, ss', calls)" "status r = 200" "map_key (session_id_of b) \<noteq> None"
    "get_prop (body r) (js ''text'') = Some tv" "get_prop (body r) (js ''choices'') = Some (JArr xs)"
    "make_payload b = Inr p" "turnBlock p (Some tv) xs = Inr block"
  shows "session_memory ss' (session_id_of b)
     = take 4000 (append_turn (session_memory ss (session_id_of b)) block)"
  using assms(1)
proof (cases rule: generate_cases)
  case (success bible p' request content usage parsed tv' xs' block')
  from success(11) assms(4,5) have "tv' = tv" "xs' = xs"
    by (simp_all add: success_response_def js_def)
  with success(2,10) assms(6,7) have "block' = block" by simp
  with success(12) assms(3) show ?thesis by (simp add: put_session_memory)
qed (use assms(2) in \<open>simp_all add: error_response_def too_large_def server_error_def
          not_json_response_def bad_shape_response_def\<close>)


text \<open>
  C4 (as amended). In the structured-JSON variant, take a request answered with 200 and a
  later request on the store it left, with the same \<open>session_id\<close>, that reaches the completion
  call; the \<open>session_id\<close> is absent or a primitive value (a string, a number, a boolean or
  \<open>null\<close>), not an array or an object. When the turn summary of the first request fitted into the
  4000 characters of the memory, the prompt of the second request holds, between the heading
  \<open>RECENT MEMORY (server-side truth):\<close> and the heading \<open>PLAYER ACTION:\<close>, the memory of the
  server, and that memory holds \<open>RESULT: \<close> followed by the text of the first response. The
  \<open>recent_memory\<close> field of the second body plays no part.
\<close>

theorem second_prompt_has_first_result:
  "generate w1 ss b1 = (r1, ss1, calls1) \<and> status r1 = 200
   \<and> generate w2 ss1 b2 = (r2, ss2, [request2])
   \<and> session_id_of b2 = session_id_of b1 \<and> map_key (session_id_of b1) \<noteq> None
   \<and> get_prop (body r1) (js ''text'') = Some tv
   \<and> get_prop (body r1) (js ''choices'') = Some (JArr xs)
   \<and> make_payload b1 = Inr p1 \<and> turnBlock p1 (Some tv) xs = Inr block
   \<and> length (append_turn (session_memory ss (session_id_of b1)) block) \<le> 4000
   \<longrightarrow> (\<exists>t before after pre post.
          js_ToString tv = Some t
          \<and> session_memory ss1 (session_id_of b1) = before @ js ''RESULT: '' @ t @ after
          \<and> user_content request2
              = pre @ memory_heading @ session_memory ss1 (session_id_of b1)
                @ js ''\<newline>\<newline>PLAYER ACTION:\<newline>'' @ post)"
proof
  assume a: "generate w1 ss b1 = (r1, ss1, calls1) \<and> status r1 = 200
   \<and> generate w2 ss1 b2 = (r2, ss2, [request2])
   \<and> session_id_of b2 = session_id_of b1 \<and> map_key (session_id_of b1) \<noteq> None
   \<and> get_prop (body r1) (js ''text'') = Some tv
   \<and> get_prop (body r1) (js ''choices'') = Some (JArr xs)
   \<and> make_payload b1 = Inr p1 \<and> turnBlock p1 (Some tv) xs = Inr block
   \<and> length (append_turn (session_memory ss (session_id_of b1)) block) \<le> 4000"
  define m0 where "m0 = session_memory ss (session_id_of b1)"
  define m1 where "m1 = session_memory ss1 (session_id_of b1)"
  from a have "m1 = take 4000 (append_turn m0 block)"
    unfolding m0_def m1_def by (intro generate_success_memory [of w1 ss b1 r1 ss1 calls1 tv xs p1]) simp_all
  with a have m1: "m1 = append_turn m0 block" by (simp add: m0_def)
  from a obtain t c where t: "js_ToString tv = Some t"
    and b: "block = js ''PLAYER: '' @ p_player_input p1 @ js ''\<newline>RESULT: '' @ t @ js ''\<newline>CHOICES: '' @ c"
    using turnBlock_result [of p1 tv xs block] by blast
  have nl: "js ''\<newline>RESULT: '' = [0x0A] @ js ''RESULT: ''" by (simp add: js_def)
  have "m1 = ((if m0 \<noteq> [] then m0 @ js ''\<newline>\<newline>'' else []) @ js ''PLAYER: '' @ p_player_input p1 @ [0x0A])
      @ js ''RESULT: '' @ t @ (js ''\<newline>CHOICES: '' @ c)"
    by (simp add: m1 append_turn_def b nl)
  then have dec: "\<exists>before after. m1 = before @ js ''RESULT: '' @ t @ after" by blast
  have ne: "m1 \<noteq> []" by (simp add: m1 append_turn_def b js_def)
  have le: "length m1 \<le> 4000" using a by (simp add: m1 m0_def)
  from a obtain bible p where
    "user_content request2
       = build_prompt bible (statsLine (session_stats (fst (getSession ss1 (session_id_of b2))))) p
           (take 4000 (session_memory ss1 (session_id_of b2)))"
    using generate_request [of w2 ss1 b2 r2 ss2 request2] by blast
  with a le have "user_content request2
       = build_prompt bible (statsLine (session_stats (fst (getSession ss1 (session_id_of b2))))) p m1"
    by (simp add: m1_def)
  with build_prompt_memory [of bible _ p m1] ne
  have "\<exists>pre post. user_content request2
      = pre @ memory_heading @ m1 @ js ''\<newline>\<newline>PLAYER ACTION:\<newline>'' @ post"
    by simp
  with t dec show "\<exists>t before after pre post.
          js_ToString tv = Some t
          \<and> session_memory ss1 (session_id_of b1) = before @ js ''RESULT: '' @ t @ after
          \<and> user_content request2
              = pre @ memory_heading @ session_memory ss1 (session_id_of b1)
                @ js ''\<newline>\<newline>PLAYER ACTION:\<newline>'' @ post"
    unfolding m1_def by blast
qed



theorem second_prompt_has_first_result_witness:
  "session_memory (fst (snd (generate example_world Map.empty example_body))) (JStr (js ''demo''))
     = example_block
   \<and> (\<exists>t before after pre post.
        js_ToString (JStr (js ''A'')) = Some t
        \<and> session_memory (fst (snd (generate example_world Map.empty example_body)))
              (session_id_of example_body)
            = before @ js ''RESULT: '' @ t @ after
        \<and> user_content
              (hd (snd (snd (generate example_world
                               (fst (snd (generate example_world Map.empty example_body)))
                               example_body))))
            = pre @ memory_heading
              @ session_memory (fst (snd (generate example_world Map.empty example_body)))
                  (session_id_of example_body)
              @ js ''\<newline>\<newline>PLAYER ACTION:\<newline>'' @ post)"
proof -
  define g1 where "g1 = generate example_world Map.empty example_body"
  define g2 where "g2 = generate example_world (fst (snd g1)) example_body"
  have e1: "generate example_world Map.empty example_body = (fst g1, fst (snd g1), snd (snd g1))"
    by (simp add: g1_def)
  have "\<exists>q. snd (snd g2) = [q]" unfolding g2_def by (simp add: example_generate)
  then obtain q where q: "snd (snd g2) = [q]" by blast
  then have e2: "generate example_world (fst (snd g1)) example_body = (fst g2, fst (snd g2), [hd (snd (snd g2))])"
    by (metis g2_def list.sel(1) prod.collapse)
  have s1: "status (fst g1) = 200"
    "get_prop (body (fst g1)) (js ''text'') = Some (JStr (js ''A''))"
    "get_prop (body (fst g1)) (js ''choices'') = Some (JArr [JStr (js ''a''), JStr (js ''b''), JStr (js ''c'')])"
    by (simp_all add: g1_def example_generate success_response_def js_def)
  have m0: "session_memory Map.empty (session_id_of example_body) = []"
    by (simp add: session_memory_def getSession_def new_session_def example_body_session)
  have k: "map_key (session_id_of example_body) \<noteq> None" by (simp add: example_body_session)
  have l: "length (append_turn (session_memory Map.empty (session_id_of example_body)) example_block)
            \<le> 4000"
    by (simp add: m0 append_turn_def example_block_def)
  have m1: "session_memory (fst (snd g1)) (JStr (js ''demo'')) = example_block"
    by (simp add: g1_def example_generate session_memory_def getSession_def put_session_def
        new_session_def append_turn_def example_block_def)
  have "\<exists>t before after pre post.
        js_ToString (JStr (js ''A'')) = Some t
        \<and> session_memory (fst (snd g1)) (session_id_of example_body)
            = before @ js ''RESULT: '' @ t @ after
        \<and> user_content (hd (snd (snd g2)))
            = pre @ memory_heading @ session_memory (fst (snd g1)) (session_id_of example_body)
              @ js ''\<newline>\<newline>PLAYER ACTION:\<newline>'' @ post"
    by (rule second_prompt_has_first_result
          [of example_world Map.empty example_body "fst g1" "fst (snd g1)" "snd (snd g1)"
              example_world example_body "fst g2" "fst (snd g2)" "hd (snd (snd g2))"
              "JStr (js ''A'')" "[JStr (js ''a''), JStr (js ''b''), JStr (js ''c'')]"
              example_payload example_block, THEN mp])
       (intro conjI e1 e2 s1 k l example_body_payload example_turnBlock refl)
  with m1 show ?thesis unfolding g1_def g2_def by blast
qed

lemma trim_newlines:
  assumes "X \<noteq> []" "\<not> is_js_space (hd X)" "\<not> is_js_space (last X)"
  shows "trim ([0x0A] @ X @ [0x0A]) = X"
proof -
  from assms obtain x xs where x: "X = x # xs" by (cases X) auto
  from assms obtain ys y where y: "X = ys @ [y]" by (cases X rule: rev_cases) auto
  have s: "is_js_space 0x0A" by (simp add: is_js_space_def)
  from assms(2) x s have 1: "dropWhile is_js_space ([0x0A] @ X @ [0x0A]) = X @ [0x0A]" by simp
  from assms(3) y s have 2: "dropWhile is_js_space (rev (X @ [0x0A])) = rev X" by simp
  show ?thesis by (simp add: trim_def 1 2 del: append.simps rev.simps rev_append)
qed

lemma array_session_body_valid: "validateGenerateBody array_session_body = None"
  by (simp add: validateGenerateBody_def required_def example_body_def array_session_body_def js_def)

lemma array_session_body_small:
  "\<not> MAX_INPUT_CHARS < length (JSON_stringify (JObj array_session_body))"
  by (simp add: example_body_def array_session_body_def MAX_INPUT_CHARS_def quote_json_def js_def
      escape_unit_def is_high_surrogate_def is_low_surrogate_def)

lemma array_session_body_session: "session_id_of array_session_body = JArr []"
  by (simp add: session_id_of_def array_session_body_def js_def)

lemma array_session_body_payload: "make_payload array_session_body = Inr example_payload"
  by (simp add: make_payload_def bind_thrown_def example_body_def array_session_body_def
      example_payload_def js_def)

lemma array_session_generate:
  "generate example_world ss array_session_body =
     (success_response (JArr []) (JStr (js ''A'')) [JStr (js ''a''), JStr (js ''b''), JStr (js ''c'')]
        default_stats,
      ss,
      [completion_request (build_prompt (js ''LORE'') (statsLine default_stats) example_payload [])])"
proof -
  have p: "tryParseModelJson (js ''Note: '' @ example_json_text @ js '' thanks'') = Inr example_json"
    by (rule tryParse_Note) (simp add: js_def)
  have n: \<open>js ''Note: {"text":"A","choices":["a","b","c"]} thanks''
             = js ''Note: '' @ example_json_text @ js '' thanks''\<close>
    by (simp add: js_def example_json_text_def)
  have sh: "get_prop example_json (js ''text'') = Some (JStr (js ''A''))"
    "get_prop example_json (js ''choices'') = Some (JArr [JStr (js ''a''), JStr (js ''b''), JStr (js ''c'')])"
    by (simp_all add: js_def example_json_def)
  have ne: "js ''A'' \<noteq> []" by (simp add: js_def)
  show ?thesis
    using array_session_body_valid array_session_body_small p sh example_turnBlock ne
    by (simp add: generate_def Let_def array_session_body_session array_session_body_payload
        example_world_def n bad_json_shape_def Array_isArray_def array_items_def
        getSession_def put_session_def new_session_def split: prod.splits)
qed

lemma example_prompt_none:
  "build_prompt (js ''LORE'') (statsLine default_stats) example_payload [] =
     js ''You are a careful interactive narrative engine. Follow the bible and all rules exactly.\<newline>''
     @ js ''\<newline>BIBLE:\<newline>LORE\<newline>''
     @ js ''\<newline>CURRENT STATS:\<newline>health:10, reputation:0, money:0\<newline>''
     @ js ''\<newline>WORLD SUMMARY:\<newline>sea\<newline>''
     @ js ''\<newline>EVENT:\<newline>storm\<newline>''
     @ js ''\<newline>RECENT MEMORY (server-side truth):\<newline>(none)\<newline>''
     @ js ''\<newline>PLAYER ACTION:\<newline>hoist\<newline>\<newline>''
     @ butlast prompt_rules"
proof -
  define X where "X = js ''You are a careful interactive narrative engine. Follow the bible and all rules exactly.\<newline>''
     @ js ''\<newline>BIBLE:\<newline>LORE\<newline>''
     @ js ''\<newline>CURRENT STATS:\<newline>health:10, reputation:0, money:0\<newline>''
     @ js ''\<newline>WORLD SUMMARY:\<newline>sea\<newline>''
     @ js ''\<newline>EVENT:\<newline>storm\<newline>''
     @ js ''\<newline>RECENT MEMORY (server-side truth):\<newline>(none)\<newline>''
     @ js ''\<newline>PLAYER ACTION:\<newline>hoist\<newline>\<newline>''
     @ butlast prompt_rules"
  have b: "build_prompt (js ''LORE'') (statsLine default_stats) example_payload []
      = trim ([0x0A] @ X @ [0x0A])"
    by (simp add: build_prompt_def X_def statsLine_default example_payload_def memory_heading_def
        prompt_rules_def js_def)
  have "X \<noteq> []" "\<not> is_js_space (hd X)" "\<not> is_js_space (last X)"
    by (simp_all add: X_def prompt_rules_def js_def is_js_space_def)
  then have "trim ([0x0A] @ X @ [0x0A]) = X" by (rule trim_newlines)
  with b show ?thesis by (simp add: X_def)
qed

text \<open>
  C4 as stated fails for a \<open>session_id\<close> that is an array (or an object): the \<open>Map\<close> finds
  such a key by identity only, so every request gets a session of its own. Two requests with
  \<open>session_id: []\<close> are both answered with 200, and the prompt of the second has \<open>(none)\<close> in
  its memory section, not the result of the first.
\<close>

theorem array_session_id_counterexample:
  "status (fst (generate example_world Map.empty array_session_body)) = 200
   \<and> get_prop (body (fst (generate example_world Map.empty array_session_body))) (js ''text'')
       = Some (JStr (js ''A''))
   \<and> status (fst (generate example_world
                     (fst (snd (generate example_world Map.empty array_session_body)))
                     array_session_body)) = 200
   \<and> map user_content
        (snd (snd (generate example_world
                     (fst (snd (generate example_world Map.empty array_session_body)))
                     array_session_body)))
       = [js ''You are a careful interactive narrative engine. Follow the bible and all rules exactly.\<newline>''
          @ js ''\<newline>BIBLE:\<newline>LORE\<newline>''
          @ js ''\<newline>CURRENT STATS:\<newline>health:10, reputation:0, money:0\<newline>''
          @ js ''\<newline>WORLD SUMMARY:\<newline>sea\<newline>''
          @ js ''\<newline>EVENT:\<newline>storm\<newline>''
          @ js ''\<newline>RECENT MEMORY (server-side truth):\<newline>(none)\<newline>''
          @ js ''\<newline>PLAYER ACTION:\<newline>hoist\<newline>\<newline>''
          @ butlast prompt_rules]"
proof -
  have t: "get_prop (body (fst (generate example_world Map.empty array_session_body))) (js ''text'')
       = Some (JStr (js ''A''))"
    by (simp add: array_session_generate success_response_def js_def)
  show ?thesis
    using t
    by (simp add: array_session_generate success_response_def completion_request_def
        example_prompt_none del: append.simps)
qed

subsection \<open>What the clamp of the memory keeps\<close>

lemma quote_units_plain: "quote_units (replicate n (0x61::16 word)) = replicate n 0x61"
proof (induction n)
  case 0
  show ?case by simp
next
  case (Suc n)
  show ?case
  proof (cases n)
    case 0
    then show ?thesis
      by (simp add: escape_unit_def is_high_surrogate_def is_low_surrogate_def)
  next
    case (Suc m)
    with Suc.IH show ?thesis
      by (simp add: escape_unit_def is_high_surrogate_def is_low_surrogate_def)
  qed
qed

lemma long_body_valid: "validateGenerateBody long_body = None"
  by (simp add: validateGenerateBody_def required_def long_body_def js_def)

lemma long_body_small: "\<not> MAX_INPUT_CHARS < length (JSON_stringify (JObj long_body))"
  by (simp add: long_body_def MAX_INPUT_CHARS_def quote_json_def quote_units_plain js_def
      escape_unit_def is_high_surrogate_def is_low_surrogate_def)

lemma long_body_session: "session_id_of long_body = JStr (js ''demo'')"
  by (simp add: session_id_of_def long_body_def js_def)

lemma long_body_payload: "make_payload long_body = Inr long_payload"
  by (simp add: make_payload_def bind_thrown_def long_body_def long_payload_def example_payload_def
      js_def)

lemma long_turnBlock:
  "turnBlock long_payload (Some (JStr (js ''A''))) [JStr (js ''a''), JStr (js ''b''), JStr (js ''c'')]
     = Inr long_block"
  by (simp add: turnBlock_def template_def array_join_def bind_thrown_def long_payload_def
      long_block_def js_def)


lemma example_world_turn:
  assumes "validateGenerateBody b = None" "\<not> MAX_INPUT_CHARS < length (JSON_stringify (JObj b))"
    "session_id_of b = JStr (js ''demo'')" "make_payload b = Inr p"
    "turnBlock p (Some (JStr (js ''A''))) [JStr (js ''a''), JStr (js ''b''), JStr (js ''c'')] = Inr block"
  shows "status (fst (generate example_world ss b)) = 200"
    and "session_memory (fst (snd (generate example_world ss b))) (JStr (js ''demo''))
           = take 4000 (append_turn (session_memory ss (JStr (js ''demo''))) block)"
proof -
  have p: "tryParseModelJson (js ''Note: '' @ example_json_text @ js '' thanks'') = Inr example_json"
    by (rule tryParse_Note) (simp add: js_def)
  have n: \<open>js ''Note: {"text":"A","choices":["a","b","c"]} thanks''
             = js ''Note: '' @ example_json_text @ js '' thanks''\<close>
    by (simp add: js_def example_json_text_def)
  have sh: "get_prop example_json (js ''text'') = Some (JStr (js ''A''))"
    "get_prop example_json (js ''choices'') = Some (JArr [JStr (js ''a''), JStr (js ''b''), JStr (js ''c'')])"
    by (simp_all add: js_def example_json_def)
  have ne: "js ''A'' \<noteq> []" by (simp add: js_def)
  have g: "generate example_world ss b =
     (success_response (JStr (js ''demo'')) (JStr (js ''A''))
        [JStr (js ''a''), JStr (js ''b''), JStr (js ''c'')]
        (session_stats (fst (getSession ss (JStr (js ''demo''))))),
      put_session (snd (getSession ss (JStr (js ''demo'')))) (JStr (js ''demo''))
        ((fst (getSession ss (JStr (js ''demo''))))
           \<lparr>recent_memory :=
              take 4000 (append_turn (recent_memory (fst (getSession ss (JStr (js ''demo''))))) block)\<rparr>),
      [completion_request
         (build_prompt (js ''LORE'') (statsLine (session_stats (fst (getSession ss (JStr (js ''demo''))))))
            p (take 4000 (recent_memory (fst (getSession ss (JStr (js ''demo'')))))))])"
    using assms p sh ne
    by (simp add: generate_def Let_def example_world_def n bad_json_shape_def Array_isArray_def
        array_items_def split: prod.splits)
  show "status (fst (generate example_world ss b)) = 200"
    by (simp add: g success_response_def)
  show "session_memory (fst (snd (generate example_world ss b))) (JStr (js ''demo''))
           = take 4000 (append_turn (session_memory ss (JStr (js ''demo''))) block)"
    by (simp add: g put_session_memory) (simp add: session_memory_def)
qed

text \<open>The memory of a session never has more than 4000 characters.\<close>

lemma generate_memory_bound:
  assumes "generate w ss b = (r, ss', calls)"
    "\<forall>k s. ss k = Some s \<longrightarrow> length (recent_memory s) \<le> 4000"
  shows "\<forall>k s. ss' k = Some s \<longrightarrow> length (recent_memory s) \<le> 4000"
proof -
  have g: "\<forall>k s. snd (getSession ss (session_id_of b)) k = Some s \<longrightarrow> length (recent_memory s) \<le> 4000"
    using assms(2) by (auto simp: getSession_snd new_session_def split: option.splits if_splits)
  from assms(1) show ?thesis
  proof (cases rule: generate_cases)
    case (success bible p request content usage parsed tv xs block)
    with g show ?thesis by (auto simp: put_session_def split: option.splits if_splits)
  qed (use assms(2) g in simp_all)
qed

lemma run_memory_bound:
  "run ss reqs = (rs, ss') \<Longrightarrow> \<forall>k s. ss k = Some s \<longrightarrow> length (recent_memory s) \<le> 4000
   \<Longrightarrow> \<forall>k s. ss' k = Some s \<longrightarrow> length (recent_memory s) \<le> 4000"
proof (induction reqs arbitrary: ss rs ss')
  case Nil
  then show ?case by simp
next
  case (Cons req reqs)
  obtain w b where req: "req = (w, b)" by (cases req)
  obtain r ss1 calls where g: "generate w ss b = (r, ss1, calls)" by (cases "generate w ss b") auto
  obtain rs1 ss2 where rn: "run ss1 reqs = (rs1, ss2)" by (cases "run ss1 reqs")
  from Cons.prems(1) req g rn have eq: "ss' = ss2" by simp
  from Cons.IH [OF rn generate_memory_bound [OF g Cons.prems(2)]] eq show ?case by simp
qed

lemma length_long_block: "length long_block = 2037"
  by (simp add: long_block_def)

text \<open>
  C3 says that the truncation of the memory drops the oldest content. The code keeps the
  first 4000 characters. On a fresh server, after two turns with a \<open>player_input\<close> of 2000
  characters the memory of the session is full: it holds the whole summary of the first turn
  and the beginning of the second. A third turn, answered with 200 like the others, leaves
  the memory as it was: what is dropped is the newest turn.
\<close>

theorem memory_keeps_oldest_turn:
  "map status (fst (run Map.empty (memory_filling_requests @ [(example_world, example_body)])))
     = [200, 200, 200]
   \<and> session_memory (snd (run Map.empty (memory_filling_requests @ [(example_world, example_body)])))
        (JStr (js ''demo''))
     = session_memory (snd (run Map.empty memory_filling_requests)) (JStr (js ''demo''))
   \<and> length (session_memory (snd (run Map.empty memory_filling_requests)) (JStr (js ''demo''))) = 4000
   \<and> take 2037 (session_memory (snd (run Map.empty memory_filling_requests)) (JStr (js ''demo'')))
     = long_block"
proof -
  define S1 where "S1 = fst (snd (generate example_world Map.empty long_body))"
  define S2 where "S2 = fst (snd (generate example_world S1 long_body))"
  define S3 where "S3 = fst (snd (generate example_world S2 example_body))"
  note long = example_world_turn [OF long_body_valid long_body_small long_body_session
      long_body_payload long_turnBlock]
  note short = example_world_turn [OF example_body_valid example_body_small example_body_session
      example_body_payload example_turnBlock]
  have r2: "snd (run Map.empty memory_filling_requests) = S2"
    by (simp add: memory_filling_requests_def split_beta S1_def S2_def)
  have r3: "snd (run Map.empty (memory_filling_requests @ [(example_world, example_body)])) = S3"
    "map status (fst (run Map.empty (memory_filling_requests @ [(example_world, example_body)])))
       = [status (fst (generate example_world Map.empty long_body)),
          status (fst (generate example_world S1 long_body)),
          status (fst (generate example_world S2 example_body))]"
    by (simp_all add: memory_filling_requests_def split_beta S1_def S2_def S3_def)
  have m0: "session_memory Map.empty (JStr (js ''demo'')) = []"
    by (simp add: session_memory_def getSession_def new_session_def)
  have ne: "long_block \<noteq> []" using length_long_block by auto
  have m1: "session_memory S1 (JStr (js ''demo'')) = long_block"
    unfolding S1_def by (simp add: long(2) m0 append_turn_def length_long_block)
  have m2: "session_memory S2 (JStr (js ''demo''))
      = take 4000 (long_block @ js ''\<newline>\<newline>'' @ long_block)"
    unfolding S2_def by (simp add: long(2) m1 append_turn_def ne)
  have l2: "length (session_memory S2 (JStr (js ''demo''))) = 4000"
    by (simp add: m2 length_long_block)
  then have ne2: "session_memory S2 (JStr (js ''demo'')) \<noteq> []" by auto
  have m3: "session_memory S3 (JStr (js ''demo'')) = session_memory S2 (JStr (js ''demo''))"
    unfolding S3_def by (simp add: short(2) append_turn_def ne2 l2)
  have t: "take 2037 (session_memory S2 (JStr (js ''demo''))) = long_block"
    by (simp add: m2 length_long_block)
  show ?thesis
    by (simp add: r2 r3 long(1) short(1) m3 l2 t)
qed

end
